theory Spec2Isabelle
  imports Main "HOL-Library.Word"
begin

unbundle bit_operations_syntax

section \<open>Data model of \<^verbatim>\<open>app/src/split/bluetooth/central.c\<close>\<close>

text \<open>
  The file is a set of callbacks that the Bluetooth stack invokes, working on five static
  variables. The embedding passes these variables as one record through every callback,
  returns the calls made into the stack and the log lines as an ordered trace, and takes
  the stack's return codes from a record of answers.
\<close>

type_synonym u8 = "8 word"
type_synonym u16 = "16 word"
type_synonym u32 = "32 word"

text \<open>A non-null \<^verbatim>\<open>struct bt_conn *\<close>; a pointer that may be \<^verbatim>\<open>NULL\<close> is a \<open>conn option\<close>.\<close>
type_synonym conn = nat

text \<open>A peer address (\<^verbatim>\<open>bt_addr_le_t\<close>), only handed on to the stack.\<close>
type_synonym bt_addr_le = nat

text \<open>A UUID value (the content of a \<^verbatim>\<open>struct bt_uuid\<close> of any size), as bytes.\<close>
type_synonym bt_uuid = "u8 list"

text \<open>
  What the file takes from headers outside it (\<^verbatim>\<open>zmk/split/bluetooth/uuid.h\<close>, the stack's
  \<^verbatim>\<open>uuid.h\<close>, \<^verbatim>\<open>gatt.h\<close>, \<^verbatim>\<open>gap.h\<close> and \<^verbatim>\<open>errno.h\<close>), as parameters: the constants,
  and the two pure functions on UUIDs. \<open>bt_uuid_cmp h u1 u2\<close> is the \<^verbatim>\<open>int\<close> returned by
  \<^verbatim>\<open>bt_uuid_cmp\<close>, which the callbacks only test against 0. \<open>bt_uuid_create h bs\<close> is the
  UUID that \<^verbatim>\<open>bt_uuid_create(&uuid, bs, 16)\<close> stores, \<open>None\<close> when it returns \<^verbatim>\<open>false\<close>.
\<close>
record hdr =
  bt_uuid_cmp :: "bt_uuid \<Rightarrow> bt_uuid \<Rightarrow> int"
  bt_uuid_create :: "u8 list \<Rightarrow> bt_uuid option"
  ZMK_SPLIT_BT_SERVICE_UUID :: bt_uuid
  ZMK_SPLIT_BT_CHAR_POSITION_STATE_UUID :: bt_uuid
  BT_UUID_GATT_CCC :: bt_uuid
  BT_GATT_DISCOVER_PRIMARY :: u8
  BT_GATT_DISCOVER_CHARACTERISTIC :: u8
  BT_GATT_DISCOVER_DESCRIPTOR :: u8
  BT_GATT_CCC_NOTIFY :: u16
  BT_DATA_UUID128_SOME :: u8
  BT_DATA_UUID128_ALL :: u8
  EALREADY :: int

definition POSITION_STATE_DATA_LEN :: nat where
  "POSITION_STATE_DATA_LEN = 16"

text \<open>
  Modelled from the spec: the macro \<^verbatim>\<open>BIT\<close> comes from a header outside the file. The
  specification reads \<^verbatim>\<open>x & BIT(j)\<close> as bit \<open>j\<close> of \<open>x\<close>, so \<open>BIT j\<close> is the mask with bit
  \<open>j\<close> alone, as an \<^verbatim>\<open>unsigned long\<close> to which a \<^verbatim>\<open>u8_t\<close> operand of \<^verbatim>\<open>&\<close> is widened.
\<close>
definition BIT :: "nat \<Rightarrow> u32" where
  "BIT n = push_bit n 1"

text \<open>The return value of an attribute or notification callback.\<close>
datatype iter = BT_GATT_ITER_STOP | BT_GATT_ITER_CONTINUE

text \<open>
  \<^verbatim>\<open>discover_params.uuid\<close> is only ever \<^verbatim>\<open>NULL\<close> (after \<^verbatim>\<open>memset\<close>) or \<^verbatim>\<open>&uuid.uuid\<close>, the
  address of the static UUID buffer; a function pointer is \<^verbatim>\<open>NULL\<close> or the one callback
  of the file that is ever stored in it.
\<close>
datatype uuid_ptr = UUID_NULL | UUID_STATIC
datatype func_ptr = FUNC_NULL | FUNC_SET

record bt_gatt_discover_params =
  dp_uuid :: uuid_ptr
  dp_func :: func_ptr
  start_handle :: u16
  end_handle :: u16
  dp_type :: u8

record bt_gatt_subscribe_params =
  notify :: func_ptr
  sp_value :: u16
  value_handle :: u16
  ccc_handle :: u16

text \<open>
  The attribute handed to the discovery callback: its handle, and what
  \<^verbatim>\<open>bt_gatt_attr_value_handle(attr)\<close> of the stack returns for it.
\<close>
record bt_gatt_attr =
  handle :: u16
  attr_value_handle :: u16

text \<open>One advertising data element; \<^verbatim>\<open>data_len\<close> is the number of bytes of \<^verbatim>\<open>data\<close>.\<close>
record bt_data =
  ad_type :: u8
  ad_data :: "u8 list"

record position_state_changed =
  position :: u32
  state :: bool

text \<open>The static variables of the file, \<^verbatim>\<open>position_state\<close> of the notification callback included.\<close>
record central =
  default_conn :: "conn option"
  uuid :: bt_uuid
  discover_params :: bt_gatt_discover_params
  subscribe_params :: bt_gatt_subscribe_params
  position_state :: "u8 list"

text \<open>
  What a callback does to the outside, in order: log lines (the format string only), events
  raised on the event manager, and calls into the stack with their arguments. A discovery
  request carries the parameters and the UUID the parameters point to at the time of the call.
\<close>
datatype effect =
    LOG_DBG string
  | LOG_ERR string
  | ZMK_EVENT_RAISE position_state_changed
  | Bt_gatt_discover conn bt_gatt_discover_params bt_uuid
  | Bt_gatt_subscribe conn bt_gatt_subscribe_params
  | Bt_conn_set_security conn
  | Bt_le_scan_start
  | Bt_le_scan_stop
  | Bt_conn_lookup_addr_le bt_addr_le
  | Bt_conn_le_create bt_addr_le
  | Bt_conn_le_phy_update "conn option"
  | Bt_conn_unref "conn option"

text \<open>
  The answers of the stack during one callback. \<^verbatim>\<open>bt_le_scan_start\<close> and \<^verbatim>\<open>bt_le_scan_stop\<close>
  can be called more than once in a callback: their answer depends on the number of earlier
  calls. \<^verbatim>\<open>bt_conn_le_create\<close> writes \<open>bt_conn_le_create_conn\<close> through its last argument,
  \<open>None\<close> when it leaves the variable alone.
\<close>
record stack =
  bt_conn_set_security_rc :: int
  bt_gatt_discover_rc :: int
  bt_gatt_subscribe_rc :: int
  bt_le_scan_start_rc :: "nat \<Rightarrow> int"
  bt_le_scan_stop_rc :: "nat \<Rightarrow> int"
  bt_conn_lookup_addr_le_res :: "conn option"
  bt_conn_le_create_rc :: int
  bt_conn_le_create_conn :: "conn option"
  bt_conn_le_phy_update_rc :: int

text \<open>
  Behaviour that C leaves undefined is a result of its own: a read through a null pointer,
  and a read past the end of the notification payload.
\<close>
datatype fault = NULL_DEREF | BUFFER_OVERREAD

text \<open>The static initialisers: everything zero but \<^verbatim>\<open>uuid\<close>, which holds the service UUID.\<close>
definition zero_discover_params :: bt_gatt_discover_params where
  "zero_discover_params =
     \<lparr>dp_uuid = UUID_NULL, dp_func = FUNC_NULL, start_handle = 0, end_handle = 0, dp_type = 0\<rparr>"

definition zero_subscribe_params :: bt_gatt_subscribe_params where
  "zero_subscribe_params =
     \<lparr>notify = FUNC_NULL, sp_value = 0, value_handle = 0, ccc_handle = 0\<rparr>"

definition init_central :: "hdr \<Rightarrow> central" where
  "init_central h =
     \<lparr>default_conn = None,
      uuid = ZMK_SPLIT_BT_SERVICE_UUID h,
      discover_params = zero_discover_params,
      subscribe_params = zero_subscribe_params,
      position_state = replicate POSITION_STATE_DATA_LEN 0\<rparr>"

section \<open>The notification callback\<close>

text \<open>
  The first loop of \<^verbatim>\<open>split_central_notify_func\<close>:
  \<^verbatim>\<open>changed_positions[i] = data[i] ^ position_state[i]; position_state[i] = data[i];\<close>
  for \<open>i\<close> from 0 to 15. It returns both arrays.
\<close>
function notify_xor_loop :: "nat \<Rightarrow> u8 list \<Rightarrow> u8 list \<Rightarrow> u8 list \<Rightarrow> u8 list \<times> u8 list" where
  "notify_xor_loop i data changed_positions pstate =
     (if i < POSITION_STATE_DATA_LEN
      then notify_xor_loop (i + 1) data
             (changed_positions[i := (data ! i) XOR (pstate ! i)])
             (pstate[i := data ! i])
      else (changed_positions, pstate))"
  by pat_completeness auto
termination
  by (relation "measure (\<lambda>(i, _, _, _). POSITION_STATE_DATA_LEN - i)") auto

text \<open>
  The inner loop, \<open>j\<close> from 0 to 7 for a byte \<open>i\<close>: where bit \<open>j\<close> of \<^verbatim>\<open>changed_positions[i]\<close>
  is set, an event with \<^verbatim>\<open>position = (i * 8) + j\<close> and
  \<^verbatim>\<open>pressed = position_state[i] & BIT(j)\<close> is logged and raised.
\<close>
function notify_bit_loop :: "nat \<Rightarrow> nat \<Rightarrow> u8 list \<Rightarrow> u8 list \<Rightarrow> effect list" where
  "notify_bit_loop i j changed_positions pstate =
     (if j < 8
      then (if ucast (changed_positions ! i) AND BIT j \<noteq> 0
            then [LOG_DBG ''Trigger key position state change for %d'',
                  ZMK_EVENT_RAISE
                    \<lparr>position = of_nat ((i * 8) + j),
                     state = (ucast (pstate ! i) AND BIT j \<noteq> 0)\<rparr>]
            else [])
           @ notify_bit_loop i (j + 1) changed_positions pstate
      else [])"
  by pat_completeness auto
termination
  by (relation "measure (\<lambda>(_, j, _, _). 8 - j)") auto

text \<open>The outer loop, \<open>i\<close> from 0 to 15.\<close>
function notify_byte_loop :: "nat \<Rightarrow> u8 list \<Rightarrow> u8 list \<Rightarrow> effect list" where
  "notify_byte_loop i changed_positions pstate =
     (if i < POSITION_STATE_DATA_LEN
      then notify_bit_loop i 0 changed_positions pstate
           @ notify_byte_loop (i + 1) changed_positions pstate
      else [])"
  by pat_completeness auto
termination
  by (relation "measure (\<lambda>(i, _, _). POSITION_STATE_DATA_LEN - i)") auto

text \<open>
  \<^verbatim>\<open>split_central_notify_func(conn, params, data, length)\<close>. The stack passes the
  parameters it was given in \<^verbatim>\<open>bt_gatt_subscribe\<close>, so \<^verbatim>\<open>params\<close> is \<^verbatim>\<open>&subscribe_params\<close>.
  \<open>data\<close> is \<open>None\<close> for a null pointer and otherwise the bytes it points to; \<open>len\<close> is the
  \<^verbatim>\<open>length\<close> argument, which the function only logs. The loops read \<^verbatim>\<open>data[0..15]\<close>
  whatever the length: with fewer than sixteen bytes behind the pointer that read is a
  \<open>BUFFER_OVERREAD\<close>. The local array \<^verbatim>\<open>changed_positions\<close> is uninitialised in C and
  written in full before it is read; it starts as zeros here.
\<close>
definition split_central_notify_func ::
  "central \<Rightarrow> conn \<Rightarrow> u8 list option \<Rightarrow> u16 \<Rightarrow> fault + (central \<times> effect list \<times> iter)" where
  "split_central_notify_func st c data len =
     (case data of
        None \<Rightarrow>
          Inr (st\<lparr>subscribe_params := (subscribe_params st)\<lparr>value_handle := 0\<rparr>\<rparr>,
               [LOG_DBG ''[UNSUBSCRIBED]''],
               BT_GATT_ITER_STOP)
      | Some bs \<Rightarrow>
          if length bs < POSITION_STATE_DATA_LEN then Inl BUFFER_OVERREAD
          else
            let (changed_positions, pstate) =
                  notify_xor_loop 0 bs (replicate POSITION_STATE_DATA_LEN 0) (position_state st)
            in Inr (st\<lparr>position_state := pstate\<rparr>,
                    LOG_DBG ''[NOTIFICATION] data %p length %u''
                      # notify_byte_loop 0 changed_positions pstate,
                    BT_GATT_ITER_CONTINUE))"

text \<open>The events a trace hands to the event manager, in order.\<close>
fun raised :: "effect list \<Rightarrow> position_state_changed list" where
  "raised [] = []"
| "raised (ZMK_EVENT_RAISE ev # es) = ev # raised es"
| "raised (_ # es) = raised es"

text \<open>Bit \<open>p mod 8\<close> of byte \<open>p div 8\<close> of a bitmap: the state of key position \<open>p\<close>.\<close>
definition key_bit :: "u8 list \<Rightarrow> nat \<Rightarrow> bool" where
  "key_bit bm p = bit (bm ! (p div 8)) (p mod 8)"


text \<open>
  The decoder as the specification words it: one event for each of the 128 positions, in
  ascending order, where the previous and the current bitmap differ, carrying the current bit.
\<close>
definition decode_spec :: "u8 list \<Rightarrow> u8 list \<Rightarrow> position_state_changed list" where
  "decode_spec previous current =
     map (\<lambda>p. \<lparr>position = of_nat p, state = key_bit current p\<rparr>)
       (filter (\<lambda>p. key_bit previous p \<noteq> key_bit current p) [0..<128])"

section \<open>The discovery callback\<close>

text \<open>
  \<^verbatim>\<open>split_central_discovery_func(conn, attr, params)\<close>. The stack passes the parameters it
  was given in \<^verbatim>\<open>bt_gatt_discover\<close>, so \<^verbatim>\<open>params\<close> is \<^verbatim>\<open>&discover_params\<close>, and the
  \<^verbatim>\<open>memset\<close> clears that variable. The phase is read off the UUID that
  \<^verbatim>\<open>discover_params.uuid\<close> points to: with a null pointer the first \<^verbatim>\<open>bt_uuid_cmp\<close> is a
  \<open>NULL_DEREF\<close>. Each \<^verbatim>\<open>memcpy\<close> into the static buffer replaces the UUID held there.
\<close>
definition split_central_discovery_func ::
  "hdr \<Rightarrow> stack \<Rightarrow> central \<Rightarrow> conn \<Rightarrow> bt_gatt_attr option
     \<Rightarrow> fault + (central \<times> effect list \<times> iter)" where
  "split_central_discovery_func h env st c attr =
     (case attr of
        None \<Rightarrow>
          Inr (st\<lparr>discover_params := zero_discover_params\<rparr>,
               [LOG_DBG ''Discover complete''],
               BT_GATT_ITER_STOP)
      | Some a \<Rightarrow>
          (case dp_uuid (discover_params st) of
             UUID_NULL \<Rightarrow> Inl NULL_DEREF
           | UUID_STATIC \<Rightarrow>
               if bt_uuid_cmp h (uuid st) (ZMK_SPLIT_BT_SERVICE_UUID h) = 0 then
                 let st1 = st\<lparr>uuid := ZMK_SPLIT_BT_CHAR_POSITION_STATE_UUID h,
                              discover_params := (discover_params st)
                                \<lparr>dp_uuid := UUID_STATIC,
                                 start_handle := handle a + 1,
                                 dp_type := BT_GATT_DISCOVER_CHARACTERISTIC h\<rparr>\<rparr>;
                     err = bt_gatt_discover_rc env
                 in Inr (st1,
                         [LOG_DBG ''[ATTRIBUTE] handle %u'',
                          Bt_gatt_discover c (discover_params st1) (uuid st1)]
                         @ (if err \<noteq> 0 then [LOG_ERR ''Discover failed (err %d)''] else []),
                         BT_GATT_ITER_STOP)
               else if bt_uuid_cmp h (uuid st) (ZMK_SPLIT_BT_CHAR_POSITION_STATE_UUID h) = 0 then
                 let st1 = st\<lparr>uuid := BT_UUID_GATT_CCC h,
                              discover_params := (discover_params st)
                                \<lparr>dp_uuid := UUID_STATIC,
                                 start_handle := handle a + 2,
                                 dp_type := BT_GATT_DISCOVER_DESCRIPTOR h\<rparr>,
                              subscribe_params := (subscribe_params st)
                                \<lparr>value_handle := attr_value_handle a\<rparr>\<rparr>;
                     err = bt_gatt_discover_rc env
                 in Inr (st1,
                         [LOG_DBG ''[ATTRIBUTE] handle %u'',
                          Bt_gatt_discover c (discover_params st1) (uuid st1)]
                         @ (if err \<noteq> 0 then [LOG_ERR ''Discover failed (err %d)''] else []),
                         BT_GATT_ITER_STOP)
               else
                 let st1 = st\<lparr>subscribe_params := (subscribe_params st)
                                \<lparr>notify := FUNC_SET,
                                 sp_value := BT_GATT_CCC_NOTIFY h,
                                 ccc_handle := handle a\<rparr>\<rparr>;
                     err = bt_gatt_subscribe_rc env
                 in Inr (st1,
                         [LOG_DBG ''[ATTRIBUTE] handle %u'',
                          Bt_gatt_subscribe c (subscribe_params st1),
                          if err \<noteq> 0 \<and> err \<noteq> - EALREADY h
                          then LOG_ERR ''Subscribe failed (err %d)''
                          else LOG_DBG ''[SUBSCRIBED]''],
                         BT_GATT_ITER_STOP)))"

section \<open>Connection life cycle\<close>

text \<open>
  \<^verbatim>\<open>start_scan()\<close>; \<open>k\<close> is the number of calls of \<^verbatim>\<open>bt_le_scan_start\<close> made earlier in the
  running callback. It returns its trace and its return value, and touches no variable.
\<close>
definition start_scan :: "stack \<Rightarrow> nat \<Rightarrow> effect list \<times> int" where
  "start_scan env k =
     (let err = bt_le_scan_start_rc env k
      in if err \<noteq> 0
         then ([Bt_le_scan_start, LOG_ERR ''Scanning failed to start (err %d)''], err)
         else ([Bt_le_scan_start, LOG_DBG ''Scanning successfully started''], 0))"

text \<open>
  \<^verbatim>\<open>split_central_process_connection(conn)\<close>. The queries \<^verbatim>\<open>bt_conn_get_security\<close> and
  \<^verbatim>\<open>bt_conn_get_info\<close> only feed the log lines.
\<close>
definition split_central_process_connection ::
  "hdr \<Rightarrow> stack \<Rightarrow> central \<Rightarrow> conn \<Rightarrow> central \<times> effect list" where
  "split_central_process_connection h env st c =
     (let pre = [LOG_DBG ''Current security for connection: %d'', Bt_conn_set_security c];
          info = [LOG_DBG ''New connection params: Interval: %d, Latency: %d, PHY: %d'']
      in if bt_conn_set_security_rc env \<noteq> 0
         then (st, pre @ [LOG_ERR ''Failed to set security (reason %d)''])
         else if Some c = default_conn st then
           let st1 = st\<lparr>discover_params := (discover_params st)
                          \<lparr>dp_uuid := UUID_STATIC,
                           dp_func := FUNC_SET,
                           start_handle := 0x0001,
                           end_handle := 0xffff,
                           dp_type := BT_GATT_DISCOVER_PRIMARY h\<rparr>\<rparr>;
               req = Bt_gatt_discover c (discover_params st1) (uuid st1)
           in if bt_gatt_discover_rc env \<noteq> 0
              then (st1, pre @ [req, LOG_ERR ''Discover failed(err %d)''])
              else (st1, pre @ [req] @ info)
         else (st, pre @ info))"

text \<open>
  The rest of the loop body of \<^verbatim>\<open>split_central_eir_found\<close> once \<^verbatim>\<open>bt_le_scan_stop\<close> has
  succeeded: look the peer up, then either process the existing connection or create one
  and ask for the 2M PHY. Both failure branches call \<^verbatim>\<open>start_scan\<close> and neither returns,
  so the second call follows the first when both requests fail.
\<close>
definition eir_connect :: "hdr \<Rightarrow> stack \<Rightarrow> central \<Rightarrow> bt_addr_le \<Rightarrow> central \<times> effect list" where
  "eir_connect h env st addr =
     (let st1 = st\<lparr>default_conn := bt_conn_lookup_addr_le_res env\<rparr>
      in case default_conn st1 of
           Some c \<Rightarrow>
             let (st2, tr) = split_central_process_connection h env st1 c
             in (st2, [Bt_conn_lookup_addr_le addr, LOG_DBG ''Found existing connection''] @ tr)
         | None \<Rightarrow>
             let st2 = (case bt_conn_le_create_conn env of
                          None \<Rightarrow> st1
                        | Some c \<Rightarrow> st1\<lparr>default_conn := Some c\<rparr>);
                 create_failed = (bt_conn_le_create_rc env \<noteq> 0);
                 tr_create =
                   (if create_failed
                    then LOG_ERR ''Create conn failed (err %d)'' # fst (start_scan env 0)
                    else []);
                 tr_phy =
                   (if bt_conn_le_phy_update_rc env \<noteq> 0
                    then LOG_ERR ''Update phy conn failed (err %d)''
                           # fst (start_scan env (if create_failed then 1 else 0))
                    else [])
             in (st2,
                 [Bt_conn_lookup_addr_le addr, Bt_conn_le_create addr] @ tr_create
                 @ [Bt_conn_le_phy_update (default_conn st2)] @ tr_phy))"

text \<open>
  The loop \<^verbatim>\<open>for (i = 0; i < data->data_len; i += 16)\<close> of \<^verbatim>\<open>split_central_eir_found\<close>;
  \<open>k\<close> counts the calls of \<^verbatim>\<open>bt_le_scan_stop\<close> made so far. As the file has it, the
  branch logging "does not match" is taken when \<^verbatim>\<open>bt_uuid_cmp\<close> returns 0. The result
  holds the value returned when the loop returns \<^verbatim>\<open>false\<close>, and \<open>True\<close> when it runs out.
\<close>
function eir_uuid_loop ::
  "hdr \<Rightarrow> stack \<Rightarrow> central \<Rightarrow> bt_addr_le \<Rightarrow> u8 list \<Rightarrow> nat \<Rightarrow> nat \<Rightarrow> central \<times> effect list \<times> bool" where
  "eir_uuid_loop h env st addr d i k =
     (if i < length d then
        (case bt_uuid_create h (take 16 (drop i d)) of
           None \<Rightarrow>
             (let (st', tr, r) = eir_uuid_loop h env st addr d (i + 16) k
              in (st', LOG_ERR ''Unable to load UUID'' # tr, r))
         | Some u \<Rightarrow>
             if bt_uuid_cmp h u (ZMK_SPLIT_BT_SERVICE_UUID h) = 0 then
               (let (st', tr, r) = eir_uuid_loop h env st addr d (i + 16) k
                in (st', LOG_DBG ''UUID %s does not match split UUID: %s'' # tr, r))
             else if bt_le_scan_stop_rc env k \<noteq> 0 then
               (let (st', tr, r) = eir_uuid_loop h env st addr d (i + 16) (k + 1)
                in (st',
                    [LOG_DBG ''Found the split service'', Bt_le_scan_stop,
                     LOG_ERR ''Stop LE scan failed (err %d)''] @ tr,
                    r))
             else
               (let (st', tr) = eir_connect h env st addr
                in (st', [LOG_DBG ''Found the split service'', Bt_le_scan_stop] @ tr, False)))
      else (st, [], True))"
  by pat_completeness auto
termination
  by (relation "measure (\<lambda>(_, _, _, _, d, i, _). length d - i)") auto

text \<open>
  \<^verbatim>\<open>split_central_eir_found(data, user_data)\<close>, with \<^verbatim>\<open>user_data\<close> the peer address. The
  result holds the \<^verbatim>\<open>bool\<close> returned: \<open>True\<close> asks the stack to go on parsing.
\<close>
definition split_central_eir_found ::
  "hdr \<Rightarrow> stack \<Rightarrow> central \<Rightarrow> bt_data \<Rightarrow> bt_addr_le \<Rightarrow> central \<times> effect list \<times> bool" where
  "split_central_eir_found h env st data addr =
     (if ad_type data = BT_DATA_UUID128_SOME h \<or> ad_type data = BT_DATA_UUID128_ALL h then
        if length (ad_data data) mod 16 \<noteq> 0
        then (st, [LOG_DBG ''[AD]: %u data_len %u'', LOG_ERR ''AD malformed''], True)
        else
          let (st', tr, r) = eir_uuid_loop h env st addr (ad_data data) 0 0
          in (st', LOG_DBG ''[AD]: %u data_len %u'' # tr, r)
      else (st, [LOG_DBG ''[AD]: %u data_len %u''], True))"

text \<open>\<^verbatim>\<open>split_central_connected(conn, conn_err)\<close>.\<close>
definition split_central_connected ::
  "hdr \<Rightarrow> stack \<Rightarrow> central \<Rightarrow> conn \<Rightarrow> u8 \<Rightarrow> central \<times> effect list" where
  "split_central_connected h env st c conn_err =
     (if conn_err \<noteq> 0
      then (st\<lparr>default_conn := None\<rparr>,
            [LOG_ERR ''Failed to connect to %s (%u)'', Bt_conn_unref (default_conn st)]
            @ fst (start_scan env 0))
      else
        let (st', tr) = split_central_process_connection h env st c
        in (st', LOG_DBG ''Connected: %s'' # tr))"

text \<open>\<^verbatim>\<open>split_central_disconnected(conn, reason)\<close>.\<close>
definition split_central_disconnected ::
  "stack \<Rightarrow> central \<Rightarrow> conn \<Rightarrow> u8 \<Rightarrow> central \<times> effect list" where
  "split_central_disconnected env st c reason =
     (if default_conn st \<noteq> Some c
      then (st, [LOG_DBG ''Disconnected: %s (reason %d)''])
      else (st\<lparr>default_conn := None\<rparr>,
            [LOG_DBG ''Disconnected: %s (reason %d)'', Bt_conn_unref (default_conn st)]
            @ fst (start_scan env 0)))"

text \<open>\<^verbatim>\<open>zmk_split_bt_central_init\<close>: registers the two connection callbacks and starts scanning.\<close>
definition zmk_split_bt_central_init :: "stack \<Rightarrow> effect list \<times> int" where
  "zmk_split_bt_central_init env = start_scan env 0"


section \<open>Callbacks in sequence\<close>

text \<open>
  Modelled from the spec: handing an incoming notification to the callback is done by the
  Bluetooth stack, outside the file. By the specification a notification is subscribed on a
  value handle, the subscription record holds the attribute handle to notify on, and the
  subscription manager routes incoming payloads to the decoder. So a payload that arrives on
  attribute handle \<open>hnd\<close> is handed to \<^verbatim>\<open>split_central_notify_func\<close> when the record's
  callback is set and its value handle is \<open>hnd\<close>, and is dropped otherwise.
\<close>
definition deliver_notification ::
  "central \<Rightarrow> conn \<Rightarrow> u16 \<Rightarrow> u8 list \<Rightarrow> u16 \<Rightarrow> fault + (central \<times> effect list)" where
  "deliver_notification st c hnd payload len =
     (if notify (subscribe_params st) = FUNC_SET \<and> value_handle (subscribe_params st) = hnd
      then (case split_central_notify_func st c (Some payload) len of
              Inl f \<Rightarrow> Inl f
            | Inr (st', tr, r) \<Rightarrow> Inr (st', tr))
      else Inr (st, []))"

text \<open>
  What the stack can call after the unsubscribe signal: a payload arriving on an attribute
  handle, the two connection callbacks, an advertising data element, and the discovery
  callback, each with the answers of the stack during that call.
\<close>
datatype callback =
    Notification conn u16 "u8 list" u16
  | Connected conn u8
  | Disconnected conn u8
  | Eir_found bt_data bt_addr_le
  | Discovery conn "bt_gatt_attr option"

fun fire :: "hdr \<Rightarrow> central \<Rightarrow> stack \<times> callback \<Rightarrow> fault + (central \<times> effect list)" where
  "fire h st (env, Notification c hnd payload len) = deliver_notification st c hnd payload len"
| "fire h st (env, Connected c conn_err) = Inr (split_central_connected h env st c conn_err)"
| "fire h st (env, Disconnected c reason) = Inr (split_central_disconnected env st c reason)"
| "fire h st (env, Eir_found data addr) =
     (case split_central_eir_found h env st data addr of (st', tr, r) \<Rightarrow> Inr (st', tr))"
| "fire h st (env, Discovery c attr) =
     (case split_central_discovery_func h env st c attr of
        Inl f \<Rightarrow> Inl f
      | Inr (st', tr, r) \<Rightarrow> Inr (st', tr))"

text \<open>A sequence of calls, one after the other; the traces are joined.\<close>
fun run :: "hdr \<Rightarrow> central \<Rightarrow> (stack \<times> callback) list \<Rightarrow> fault + (central \<times> effect list)" where
  "run h st [] = Inr (st, [])"
| "run h st (cb # cbs) =
     (case fire h st cb of
        Inl f \<Rightarrow> Inl f
      | Inr (st', tr) \<Rightarrow>
          (case run h st' cbs of
             Inl f \<Rightarrow> Inl f
           | Inr (st'', tr') \<Rightarrow> Inr (st'', tr @ tr')))"

text \<open>
  A call that is no part of a new subscription: anything but the discovery callback, which
  is where the file stores a value handle and subscribes. A notification counts when it
  arrives on an attribute handle, and attribute handles are not 0.
\<close>
fun no_subscribe :: "callback \<Rightarrow> bool" where
  "no_subscribe (Discovery c attr) = False"
| "no_subscribe (Notification c hnd payload len) = (hnd \<noteq> 0)"
| "no_subscribe _ = True"

text \<open>Trace entries that are log lines or a request to stop scanning.\<close>
fun log_or_scan_stop :: "effect \<Rightarrow> bool" where
  "log_or_scan_stop (LOG_DBG _) = True"
| "log_or_scan_stop (LOG_ERR _) = True"
| "log_or_scan_stop Bt_le_scan_stop = True"
| "log_or_scan_stop _ = False"

section \<open>Reading a trace\<close>

text \<open>The discovery requests of a trace, in order.\<close>
fun discover_requests :: "effect list \<Rightarrow> (conn \<times> bt_gatt_discover_params \<times> bt_uuid) list" where
  "discover_requests [] = []"
| "discover_requests (Bt_gatt_discover c p u # es) = (c, p, u) # discover_requests es"
| "discover_requests (_ # es) = discover_requests es"

text \<open>\<open>occurs_before x y tr\<close>: \<open>y\<close> occurs in \<open>tr\<close>, and \<open>x\<close> occurs ahead of the first \<open>y\<close>.\<close>
fun occurs_before :: "effect \<Rightarrow> effect \<Rightarrow> effect list \<Rightarrow> bool" where
  "occurs_before x y [] = False"
| "occurs_before x y (e # es) =
     (if e = y then False else if e = x then y \<in> set es else occurs_before x y es)"

section \<open>Concrete values for running the model\<close>

text \<open>
  Values for the header parameters and a stack on which every request succeeds. Here
  \<open>bt_uuid_cmp\<close> returns 0 for equal UUIDs and 1 otherwise, and \<open>bt_uuid_create\<close> takes
  sixteen bytes as they are. They serve the concrete runs only; every general statement
  below holds for all values.
\<close>
definition sample_hdr :: hdr where
  "sample_hdr =
     \<lparr>bt_uuid_cmp = (\<lambda>u1 u2. if u1 = u2 then 0 else 1),
      bt_uuid_create = (\<lambda>bs. if length bs = 16 then Some bs else None),
      ZMK_SPLIT_BT_SERVICE_UUID =
        [0x2a, 0x48, 0xc2, 0xb1, 0xcf, 0xc5, 0x67, 0xc9, 0x07, 0x71, 0x96, 0x00, 0x00, 0x00, 0x00, 0x00],
      ZMK_SPLIT_BT_CHAR_POSITION_STATE_UUID =
        [0x2a, 0x48, 0xc2, 0xb1, 0xcf, 0xc5, 0x67, 0xc9, 0x07, 0x71, 0x96, 0x00, 0x01, 0x00, 0x00, 0x00],
      BT_UUID_GATT_CCC =
        [0xfb, 0x34, 0x9b, 0x5f, 0x80, 0x00, 0x00, 0x80, 0x00, 0x10, 0x00, 0x00, 0x02, 0x29, 0x00, 0x00],
      BT_GATT_DISCOVER_PRIMARY = 0,
      BT_GATT_DISCOVER_CHARACTERISTIC = 3,
      BT_GATT_DISCOVER_DESCRIPTOR = 4,
      BT_GATT_CCC_NOTIFY = 1,
      BT_DATA_UUID128_SOME = 6,
      BT_DATA_UUID128_ALL = 7,
      EALREADY = 120\<rparr>"

definition ok_stack :: stack where
  "ok_stack =
     \<lparr>bt_conn_set_security_rc = 0,
      bt_gatt_discover_rc = 0,
      bt_gatt_subscribe_rc = 0,
      bt_le_scan_start_rc = (\<lambda>_. 0),
      bt_le_scan_stop_rc = (\<lambda>_. 0),
      bt_conn_lookup_addr_le_res = None,
      bt_conn_le_create_rc = 0,
      bt_conn_le_create_conn = Some 1,
      bt_conn_le_phy_update_rc = 0\<rparr>"

text \<open>
  The variables along one run on these values: connection 1 is tracked and secured, the
  service is found at handle 10, the characteristic at handle 20 with its value at 21, the
  descriptor at handle 22.
\<close>
definition sample_service_phase :: central where
  "sample_service_phase =
     (init_central sample_hdr)
       \<lparr>default_conn := Some 1,
        discover_params :=
          \<lparr>dp_uuid = UUID_STATIC, dp_func = FUNC_SET, start_handle = 1, end_handle = 0xffff,
           dp_type = 0\<rparr>\<rparr>"

definition sample_char_phase :: central where
  "sample_char_phase =
     sample_service_phase
       \<lparr>uuid := ZMK_SPLIT_BT_CHAR_POSITION_STATE_UUID sample_hdr,
        discover_params :=
          \<lparr>dp_uuid = UUID_STATIC, dp_func = FUNC_SET, start_handle = 11, end_handle = 0xffff,
           dp_type = 3\<rparr>\<rparr>"

definition sample_descriptor_phase :: central where
  "sample_descriptor_phase =
     sample_char_phase
       \<lparr>uuid := BT_UUID_GATT_CCC sample_hdr,
        discover_params :=
          \<lparr>dp_uuid = UUID_STATIC, dp_func = FUNC_SET, start_handle = 22, end_handle = 0xffff,
           dp_type = 4\<rparr>,
        subscribe_params :=
          \<lparr>notify = FUNC_NULL, sp_value = 0, value_handle = 21, ccc_handle = 0\<rparr>\<rparr>"

definition sample_subscribed :: central where
  "sample_subscribed =
     sample_descriptor_phase
       \<lparr>subscribe_params :=
          \<lparr>notify = FUNC_SET, sp_value = 1, value_handle = 21, ccc_handle = 22\<rparr>\<rparr>"

text \<open>After a notification that reports key 0 as pressed, and after the unsubscribe signal.\<close>
definition sample_pressed :: central where
  "sample_pressed = sample_subscribed\<lparr>position_state := 1 # replicate 15 0\<rparr>"

definition sample_unsubscribed :: central where
  "sample_unsubscribed =
     sample_pressed
       \<lparr>subscribe_params :=
          \<lparr>notify = FUNC_SET, sp_value = 1, value_handle = 0, ccc_handle = 22\<rparr>\<rparr>"

section \<open>The decoder\<close>

declare notify_xor_loop.simps [simp del]
declare notify_bit_loop.simps [simp del]
declare notify_byte_loop.simps [simp del]
declare eir_uuid_loop.simps [simp del]

lemma raised_append: "raised (xs @ ys) = raised xs @ raised ys"
  by (induction xs rule: raised.induct) simp_all

lemma ucast_and_BIT: "j < 8 \<Longrightarrow> (ucast (x :: u8) AND BIT j \<noteq> 0) = bit x j"
  by (simp add: BIT_def and_exp_eq_0_iff_not_bit bit_ucast_iff)

lemma key_bit_byte: "j < 8 \<Longrightarrow> key_bit bm (i * 8 + j) = bit (bm ! i) j"
  by (simp add: key_bit_def)

text \<open>The inner loop raises, for the bits \<open>j\<close> and up of byte \<open>i\<close>, the events of the set bits.\<close>

lemma raised_bit_loop:
  "j \<le> 8 \<Longrightarrow>
   raised (notify_bit_loop i j ch ps) =
     map (\<lambda>p. \<lparr>position = of_nat p, state = key_bit ps p\<rparr>)
       (filter (key_bit ch) [i * 8 + j ..< i * 8 + 8])"
proof (induction i j ch ps rule: notify_bit_loop.induct)
  case (1 i j ch ps)
  show ?case
  proof (cases "j < 8")
    case True
    then have upt: "[i * 8 + j ..< i * 8 + 8] = (i * 8 + j) # [i * 8 + (j + 1) ..< i * 8 + 8]"
      by (simp add: upt_conv_Cons)
    from True have ih: "raised (notify_bit_loop i (Suc j) ch ps) =
        map (\<lambda>p. \<lparr>position = of_nat p, state = key_bit ps p\<rparr>)
          (filter (key_bit ch) [Suc (i * 8 + j) ..< i * 8 + 8])"
      using "1" by simp
    show ?thesis
      using True
      by (subst notify_bit_loop.simps, subst upt)
         (simp add: raised_append ih ucast_and_BIT key_bit_byte)
  next
    case False
    with "1.prems" have "j = 8" by simp
    then show ?thesis by (subst notify_bit_loop.simps) simp
  qed
qed

lemma raised_byte_loop:
  "i \<le> 16 \<Longrightarrow>
   raised (notify_byte_loop i ch ps) =
     map (\<lambda>p. \<lparr>position = of_nat p, state = key_bit ps p\<rparr>)
       (filter (key_bit ch) [i * 8 ..< 128])"
proof (induction i ch ps rule: notify_byte_loop.induct)
  case (1 i ch ps)
  show ?case
  proof (cases "i < 16")
    case True
    then have upt: "[i * 8 ..< 128] = [i * 8 + 0 ..< i * 8 + 8] @ [(i + 1) * 8 ..< 128]"
      using upt_add_eq_append [of "i * 8" "i * 8 + 8" "120 - i * 8"] by (simp add: add.commute)
    from True have ih: "raised (notify_byte_loop (Suc i) ch ps) =
        map (\<lambda>p. \<lparr>position = of_nat p, state = key_bit ps p\<rparr>)
          (filter (key_bit ch) [8 + i * 8 ..< 128])"
      using "1" by (simp add: POSITION_STATE_DATA_LEN_def)
    show ?thesis
      using True
      by (subst notify_byte_loop.simps, subst upt)
         (simp add: raised_append ih raised_bit_loop POSITION_STATE_DATA_LEN_def)
  next
    case False
    with "1.prems" have "i = 16" by simp
    then show ?thesis by (subst notify_byte_loop.simps) (simp add: POSITION_STATE_DATA_LEN_def)
  qed
qed

text \<open>The first loop leaves entries below \<open>i\<close> alone and rewrites the others.\<close>

lemma xor_loop_nth:
  "length data \<ge> 16 \<Longrightarrow> length ch = 16 \<Longrightarrow> length ps = 16 \<Longrightarrow>
   notify_xor_loop i data ch ps = (ch', ps') \<Longrightarrow>
   length ch' = 16 \<and> length ps' = 16 \<and>
   (\<forall>k<16. ch' ! k = (if i \<le> k then (data ! k) XOR (ps ! k) else ch ! k)) \<and>
   (\<forall>k<16. ps' ! k = (if i \<le> k then data ! k else ps ! k))"
proof (induction i data ch ps rule: notify_xor_loop.induct)
  case (1 i data ch ps)
  show ?case
  proof (cases "i < 16")
    case True
    let ?ch = "ch[i := (data ! i) XOR (ps ! i)]"
    let ?ps = "ps[i := data ! i]"
    from True "1.prems"(4) have run: "notify_xor_loop (i + 1) data ?ch ?ps = (ch', ps')"
      by (subst (asm) notify_xor_loop.simps) (simp add: POSITION_STATE_DATA_LEN_def)
    have "length ch' = 16 \<and> length ps' = 16 \<and>
      (\<forall>k<16. ch' ! k = (if i + 1 \<le> k then (data ! k) XOR (?ps ! k) else ?ch ! k)) \<and>
      (\<forall>k<16. ps' ! k = (if i + 1 \<le> k then data ! k else ?ps ! k))"
      using "1"(1)[OF _ "1.prems"(1) _ _ run] True "1.prems"(2,3)
      by (simp add: POSITION_STATE_DATA_LEN_def)
    then show ?thesis
      using True "1.prems"(2,3)
      by (auto simp: nth_list_update Suc_le_eq not_less dest: le_antisym)
  next
    case False
    with "1.prems"(4) have "ch' = ch" "ps' = ps"
      by (subst (asm) notify_xor_loop.simps, simp add: POSITION_STATE_DATA_LEN_def)+
    with False "1.prems" show ?thesis by simp
  qed
qed

text \<open>
  A payload of sixteen bytes or more: the callback stores its first sixteen bytes and raises
  what the specification's decoder gives for the stored bitmap and those bytes.
\<close>

lemma notify_func_payload:
  assumes prev: "length (position_state st) = 16" and bs: "16 \<le> length bs"
  shows "\<exists>tr. split_central_notify_func st c (Some bs) len =
           Inr (st\<lparr>position_state := take 16 bs\<rparr>, tr, BT_GATT_ITER_CONTINUE) \<and>
         raised tr = decode_spec (position_state st) (take 16 bs)"
proof -
  obtain ch' ps' where run:
    "notify_xor_loop 0 bs (replicate 16 0) (position_state st) = (ch', ps')"
    by (cases "notify_xor_loop 0 bs (replicate 16 0) (position_state st)")
  from xor_loop_nth [OF bs _ prev run]
  have len: "length ch' = 16" "length ps' = 16"
    and ch: "\<And>k. k < 16 \<Longrightarrow> ch' ! k = (bs ! k) XOR (position_state st ! k)"
    and ps: "\<And>k. k < 16 \<Longrightarrow> ps' ! k = bs ! k"
    by simp_all
  have ps_eq: "ps' = take 16 bs"
    using len bs ps by (intro nth_equalityI) simp_all
  have kb: "key_bit ch' p = (key_bit (position_state st) p \<noteq> key_bit ps' p)" if "p < 128" for p
  proof -
    from that have "p div 8 < 16" by simp
    then show ?thesis
      by (auto simp: key_bit_def ch ps bit_xor_iff)
  qed
  have "filter (key_bit ch') [0..<128] =
        filter (\<lambda>p. key_bit (position_state st) p \<noteq> key_bit ps' p) [0..<128]"
    by (rule filter_cong) (simp_all add: kb)
  then have "raised (notify_byte_loop 0 ch' ps') = decode_spec (position_state st) ps'"
    using raised_byte_loop [of 0 ch' ps'] by (simp add: decode_spec_def)
  then show ?thesis
    using bs run ps_eq
    by (simp add: split_central_notify_func_def POSITION_STATE_DATA_LEN_def)
qed


lemma notify_func_unsubscribed:
  "split_central_notify_func st c None len =
     Inr (st\<lparr>subscribe_params := (subscribe_params st)\<lparr>value_handle := 0\<rparr>\<rparr>,
          [LOG_DBG ''[UNSUBSCRIBED]''], BT_GATT_ITER_STOP)"
  by (simp add: split_central_notify_func_def)

text \<open>The positions of the specification's events are the differing positions, ascending.\<close>

lemma decode_spec_positions:
  "map (\<lambda>e. unat (position e)) (decode_spec previous current) =
     filter (\<lambda>p. key_bit previous p \<noteq> key_bit current p) [0..<128]"
proof -
  have "unat (word_of_nat p :: u32) = p" if "p < 128" for p
    using that by (simp add: unat_of_nat)
  then have "map (\<lambda>p. unat (word_of_nat p :: u32)) xs = xs" if "set xs \<subseteq> {0..<128}" for xs
    using that by (intro map_idI) auto
  from this [of "filter (\<lambda>p. key_bit previous p \<noteq> key_bit current p) [0..<128]"]
  show ?thesis by (simp add: decode_spec_def comp_def subset_iff)
qed

section \<open>The three phases of discovery\<close>

lemma discovery_service_phase:
  assumes "dp_uuid (discover_params st) = UUID_STATIC"
    "bt_uuid_cmp h (uuid st) (ZMK_SPLIT_BT_SERVICE_UUID h) = 0"
  shows "split_central_discovery_func h env st c (Some a) =
     Inr (st\<lparr>uuid := ZMK_SPLIT_BT_CHAR_POSITION_STATE_UUID h,
             discover_params := (discover_params st)
               \<lparr>dp_uuid := UUID_STATIC, start_handle := handle a + 1,
                dp_type := BT_GATT_DISCOVER_CHARACTERISTIC h\<rparr>\<rparr>,
          [LOG_DBG ''[ATTRIBUTE] handle %u'',
           Bt_gatt_discover c ((discover_params st)
               \<lparr>dp_uuid := UUID_STATIC, start_handle := handle a + 1,
                dp_type := BT_GATT_DISCOVER_CHARACTERISTIC h\<rparr>)
             (ZMK_SPLIT_BT_CHAR_POSITION_STATE_UUID h)]
          @ (if bt_gatt_discover_rc env \<noteq> 0 then [LOG_ERR ''Discover failed (err %d)''] else []),
          BT_GATT_ITER_STOP)"
  using assms by (simp add: split_central_discovery_func_def Let_def)

lemma discovery_char_phase:
  assumes "dp_uuid (discover_params st) = UUID_STATIC"
    "bt_uuid_cmp h (uuid st) (ZMK_SPLIT_BT_SERVICE_UUID h) \<noteq> 0"
    "bt_uuid_cmp h (uuid st) (ZMK_SPLIT_BT_CHAR_POSITION_STATE_UUID h) = 0"
  shows "split_central_discovery_func h env st c (Some a) =
     Inr (st\<lparr>uuid := BT_UUID_GATT_CCC h,
             discover_params := (discover_params st)
               \<lparr>dp_uuid := UUID_STATIC, start_handle := handle a + 2,
                dp_type := BT_GATT_DISCOVER_DESCRIPTOR h\<rparr>,
             subscribe_params := (subscribe_params st)\<lparr>value_handle := attr_value_handle a\<rparr>\<rparr>,
          [LOG_DBG ''[ATTRIBUTE] handle %u'',
           Bt_gatt_discover c ((discover_params st)
               \<lparr>dp_uuid := UUID_STATIC, start_handle := handle a + 2,
                dp_type := BT_GATT_DISCOVER_DESCRIPTOR h\<rparr>)
             (BT_UUID_GATT_CCC h)]
          @ (if bt_gatt_discover_rc env \<noteq> 0 then [LOG_ERR ''Discover failed (err %d)''] else []),
          BT_GATT_ITER_STOP)"
  using assms by (simp add: split_central_discovery_func_def Let_def)



lemma unat_handle_plus_1: "unat (x :: u16) < 65535 \<Longrightarrow> unat (x + 1) = unat x + 1"
  by (simp add: unat_word_ariths)

lemma unat_handle_plus_2: "unat (x :: u16) < 65534 \<Longrightarrow> unat (x + 2) = unat x + 2"
  by (simp add: unat_word_ariths)

section \<open>Scanning and connecting\<close>

lemma start_scan_trace:
  "\<exists>l. fst (start_scan env k) = [Bt_le_scan_start, l] \<and>
       l = (if bt_le_scan_start_rc env k \<noteq> 0 then LOG_ERR ''Scanning failed to start (err %d)''
         else LOG_DBG ''Scanning successfully started'')"
  by (simp add: start_scan_def Let_def)

text \<open>
  An element holding one UUID: the connection branch is reached when \<^verbatim>\<open>bt_uuid_cmp\<close> of that
  UUID and the service UUID is not 0 and the scan could be stopped.
\<close>

lemma eir_uuid_loop_single:
  assumes "length d = 16" "bt_uuid_create h d = Some u"
    "bt_uuid_cmp h u (ZMK_SPLIT_BT_SERVICE_UUID h) \<noteq> 0" "bt_le_scan_stop_rc env 0 = 0"
  shows "eir_uuid_loop h env st addr d 0 0 =
     (fst (eir_connect h env st addr),
      [LOG_DBG ''Found the split service'', Bt_le_scan_stop] @ snd (eir_connect h env st addr),
      False)"
  using assms
  by (subst eir_uuid_loop.simps)
     (simp add: split_beta)

lemma eir_connect_create_failed:
  assumes "bt_conn_lookup_addr_le_res env = None" "bt_conn_le_create_rc env \<noteq> 0"
  shows "eir_connect h env st addr =
     (st\<lparr>default_conn := bt_conn_le_create_conn env\<rparr>,
      [Bt_conn_lookup_addr_le addr, Bt_conn_le_create addr,
       LOG_ERR ''Create conn failed (err %d)''] @ fst (start_scan env 0)
      @ [Bt_conn_le_phy_update (bt_conn_le_create_conn env)]
      @ (if bt_conn_le_phy_update_rc env \<noteq> 0
         then LOG_ERR ''Update phy conn failed (err %d)'' # fst (start_scan env 1)
         else []))"
  using assms
  by (cases "bt_conn_le_create_conn env") (simp_all add: eir_connect_def Let_def)

section \<open>A run on the concrete values\<close>

text \<open>
  From the initial variables: an advertisement with a UUID other than the service UUID makes
  the callback connect; the connection completes; discovery walks its three phases; the first
  notification reports key 0.
\<close>

lemma sample_run_advertisement:
  "split_central_eir_found sample_hdr ok_stack (init_central sample_hdr)
      \<lparr>ad_type = 7, ad_data = replicate 16 0x55\<rparr> 42 =
     ((init_central sample_hdr)\<lparr>default_conn := Some 1\<rparr>,
      [LOG_DBG ''[AD]: %u data_len %u'', LOG_DBG ''Found the split service'', Bt_le_scan_stop,
       Bt_conn_lookup_addr_le 42, Bt_conn_le_create 42, Bt_conn_le_phy_update (Some 1)],
      False)"
  by code_simp

lemma sample_run_own_uuid_skipped:
  "split_central_eir_found sample_hdr ok_stack (init_central sample_hdr)
      \<lparr>ad_type = 7, ad_data = ZMK_SPLIT_BT_SERVICE_UUID sample_hdr\<rparr> 42 =
     (init_central sample_hdr,
      [LOG_DBG ''[AD]: %u data_len %u'', LOG_DBG ''UUID %s does not match split UUID: %s''],
      True)"
  by code_simp

lemma sample_run_connected:
  "split_central_connected sample_hdr ok_stack ((init_central sample_hdr)\<lparr>default_conn := Some 1\<rparr>) 1 0 =
     (sample_service_phase,
      [LOG_DBG ''Connected: %s'', LOG_DBG ''Current security for connection: %d'',
       Bt_conn_set_security 1,
       Bt_gatt_discover 1 (discover_params sample_service_phase) (ZMK_SPLIT_BT_SERVICE_UUID sample_hdr),
       LOG_DBG ''New connection params: Interval: %d, Latency: %d, PHY: %d''])"
  by code_simp

lemma sample_run_service:
  "split_central_discovery_func sample_hdr ok_stack sample_service_phase 1
      (Some \<lparr>handle = 10, attr_value_handle = 0\<rparr>) =
     Inr (sample_char_phase,
      [LOG_DBG ''[ATTRIBUTE] handle %u'',
       Bt_gatt_discover 1 (discover_params sample_char_phase)
         (ZMK_SPLIT_BT_CHAR_POSITION_STATE_UUID sample_hdr)],
      BT_GATT_ITER_STOP)"
  by code_simp

lemma sample_run_char:
  "split_central_discovery_func sample_hdr ok_stack sample_char_phase 1
      (Some \<lparr>handle = 20, attr_value_handle = 21\<rparr>) =
     Inr (sample_descriptor_phase,
      [LOG_DBG ''[ATTRIBUTE] handle %u'',
       Bt_gatt_discover 1 (discover_params sample_descriptor_phase) (BT_UUID_GATT_CCC sample_hdr)],
      BT_GATT_ITER_STOP)"
  by code_simp

lemma sample_run_descriptor:
  "split_central_discovery_func sample_hdr ok_stack sample_descriptor_phase 1
      (Some \<lparr>handle = 22, attr_value_handle = 0\<rparr>) =
     Inr (sample_subscribed,
      [LOG_DBG ''[ATTRIBUTE] handle %u'',
       Bt_gatt_subscribe 1 (subscribe_params sample_subscribed),
       LOG_DBG ''[SUBSCRIBED]''],
      BT_GATT_ITER_STOP)"
  by code_simp

lemma sample_run_notification:
  "split_central_notify_func sample_subscribed 1 (Some (1 # replicate 15 0)) 16 =
     Inr (sample_pressed,
          [LOG_DBG ''[NOTIFICATION] data %p length %u'',
           LOG_DBG ''Trigger key position state change for %d'',
           ZMK_EVENT_RAISE \<lparr>position = 0, state = True\<rparr>],
          BT_GATT_ITER_CONTINUE)"
  by code_simp

lemma sample_lengths:
  "length (position_state sample_subscribed) = 16"
  "length (position_state sample_pressed) = 16"
  "length (position_state sample_unsubscribed) = 16"
  by code_simp+

section \<open>The stored bitmap keeps its sixteen bytes\<close>

text \<open>
  The array \<^verbatim>\<open>position_state\<close> has sixteen entries at start-up; the notification callback
  keeps that length, and no other callback writes the array. The length assumed of the stored
  bitmap below therefore holds of the variables after any sequence of callbacks.
\<close>

lemma init_position_state_length: "length (position_state (init_central h)) = 16"
  by (simp add: init_central_def POSITION_STATE_DATA_LEN_def)

lemma notify_func_position_state_length:
  assumes "split_central_notify_func st c data len = Inr (st', tr, r)"
    and "length (position_state st) = 16"
  shows "length (position_state st') = 16"
proof (cases data)
  case None
  with assms show ?thesis by (auto simp: notify_func_unsubscribed)
next
  case (Some bs)
  with assms(1) have bs: "16 \<le> length bs"
    by (auto simp: split_central_notify_func_def POSITION_STATE_DATA_LEN_def split: if_splits)
  from notify_func_payload [OF assms(2) bs, of c len] assms(1) Some bs
  show ?thesis by auto
qed

lemma process_connection_keeps_position_state:
  "position_state (fst (split_central_process_connection h env st c)) = position_state st"
  by (simp add: split_central_process_connection_def Let_def)

lemma connected_keeps_position_state:
  "position_state (fst (split_central_connected h env st c conn_err)) = position_state st"
  by (simp add: split_central_connected_def split_beta process_connection_keeps_position_state)

lemma disconnected_keeps_position_state:
  "position_state (fst (split_central_disconnected env st c reason)) = position_state st"
  by (simp add: split_central_disconnected_def)

lemma eir_connect_keeps_position_state:
  "position_state (fst (eir_connect h env st addr)) = position_state st"
  by (simp add: eir_connect_def Let_def split_beta process_connection_keeps_position_state
           split: option.splits)

lemma eir_uuid_loop_keeps_position_state:
  "position_state (fst (eir_uuid_loop h env st addr d i k)) = position_state st"
proof (induction h env st addr d i k rule: eir_uuid_loop.induct)
  case (1 h env st addr d i k)
  show ?case
    using "1"
    by (subst eir_uuid_loop.simps)
       (auto simp: split_beta eir_connect_keeps_position_state split: option.splits)
qed

lemma eir_found_keeps_position_state:
  "position_state (fst (split_central_eir_found h env st data addr)) = position_state st"
  by (simp add: split_central_eir_found_def split_beta eir_uuid_loop_keeps_position_state)

section \<open>What the connection callbacks leave alone\<close>

lemma raised_start_scan: "raised (fst (start_scan env k)) = []"
  by (simp add: start_scan_def Let_def)

lemma raised_log_or_scan_stop: "list_all log_or_scan_stop tr \<Longrightarrow> raised tr = []"
  by (induction tr rule: raised.induct) simp_all

lemma process_connection_quiet:
  "subscribe_params (fst (split_central_process_connection h env st c)) = subscribe_params st"
  "raised (snd (split_central_process_connection h env st c)) = []"
  "Bt_conn_le_create a \<notin> set (snd (split_central_process_connection h env st c))"
  by (simp_all add: split_central_process_connection_def Let_def)

lemma connected_quiet:
  "subscribe_params (fst (split_central_connected h env st c conn_err)) = subscribe_params st"
  "raised (snd (split_central_connected h env st c conn_err)) = []"
  by (simp_all add: split_central_connected_def split_beta process_connection_quiet
        raised_append raised_start_scan)

lemma disconnected_quiet:
  "subscribe_params (fst (split_central_disconnected env st c reason)) = subscribe_params st"
  "raised (snd (split_central_disconnected env st c reason)) = []"
  by (simp_all add: split_central_disconnected_def raised_append raised_start_scan)

lemma eir_connect_quiet:
  "subscribe_params (fst (eir_connect h env st addr)) = subscribe_params st"
  "raised (snd (eir_connect h env st addr)) = []"
  by (simp_all add: eir_connect_def Let_def split_beta process_connection_quiet
        raised_append raised_start_scan split: option.splits)

text \<open>
  The shape of every run of the loop over the UUIDs of an element: log lines and refused
  scan stops, and then either nothing more, with \<^verbatim>\<open>true\<close> returned, or the one successful
  scan stop and the connection branch, with \<^verbatim>\<open>false\<close> returned.
\<close>

lemma eir_uuid_loop_shape:
  "\<exists>pre. list_all log_or_scan_stop pre \<and>
     (eir_uuid_loop h env st addr d i k = (st, pre, True) \<or>
      eir_uuid_loop h env st addr d i k =
        (fst (eir_connect h env st addr),
         pre @ [LOG_DBG ''Found the split service'', Bt_le_scan_stop]
           @ snd (eir_connect h env st addr),
         False))"
proof (induction h env st addr d i k rule: eir_uuid_loop.induct)
  case (1 h env st addr d i k)
  show ?case
  proof (cases "i < length d")
    case False
    then have "eir_uuid_loop h env st addr d i k = (st, [], True)"
      by (subst eir_uuid_loop.simps) simp
    then show ?thesis by (intro exI [of _ "[]"]) simp
  next
    case True
    show ?thesis
    proof (cases "bt_uuid_create h (take 16 (drop i d))")
      case None
      from "1"(1) [OF True None] obtain pre where
        pre: "list_all log_or_scan_stop pre"
          "eir_uuid_loop h env st addr d (i + 16) k = (st, pre, True) \<or>
           eir_uuid_loop h env st addr d (i + 16) k =
             (fst (eir_connect h env st addr),
              pre @ [LOG_DBG ''Found the split service'', Bt_le_scan_stop]
                @ snd (eir_connect h env st addr), False)"
        by blast
      show ?thesis
        using True None pre
        by (intro exI [of _ "LOG_ERR ''Unable to load UUID'' # pre"])
           (subst eir_uuid_loop.simps, subst eir_uuid_loop.simps, auto)
    next
      case (Some u)
      show ?thesis
      proof (cases "bt_uuid_cmp h u (ZMK_SPLIT_BT_SERVICE_UUID h) = 0")
        case eq: True
        from "1"(2) [OF True Some eq] obtain pre where
          pre: "list_all log_or_scan_stop pre"
            "eir_uuid_loop h env st addr d (i + 16) k = (st, pre, True) \<or>
             eir_uuid_loop h env st addr d (i + 16) k =
               (fst (eir_connect h env st addr),
                pre @ [LOG_DBG ''Found the split service'', Bt_le_scan_stop]
                  @ snd (eir_connect h env st addr), False)"
          by blast
        show ?thesis
          using True Some eq pre
          by (intro exI [of _ "LOG_DBG ''UUID %s does not match split UUID: %s'' # pre"])
             (subst eir_uuid_loop.simps, subst eir_uuid_loop.simps, auto)
      next
        case ne: False
        show ?thesis
        proof (cases "bt_le_scan_stop_rc env k \<noteq> 0")
          case refused: True
          from "1"(3) [OF True Some ne refused] obtain pre where
            pre: "list_all log_or_scan_stop pre"
              "eir_uuid_loop h env st addr d (i + 16) (k + 1) = (st, pre, True) \<or>
               eir_uuid_loop h env st addr d (i + 16) (k + 1) =
                 (fst (eir_connect h env st addr),
                  pre @ [LOG_DBG ''Found the split service'', Bt_le_scan_stop]
                    @ snd (eir_connect h env st addr), False)"
            by blast
          show ?thesis
            using True Some ne refused pre
            by (intro exI [of _ "[LOG_DBG ''Found the split service'', Bt_le_scan_stop,
                                  LOG_ERR ''Stop LE scan failed (err %d)''] @ pre"])
               (subst eir_uuid_loop.simps, subst eir_uuid_loop.simps, auto)
        next
          case stopped: False
          have "eir_uuid_loop h env st addr d i k =
                  (fst (eir_connect h env st addr),
                   [] @ [LOG_DBG ''Found the split service'', Bt_le_scan_stop]
                     @ snd (eir_connect h env st addr), False)"
            using True Some ne stopped
            by (subst eir_uuid_loop.simps) (simp add: split_beta)
          then show ?thesis by (intro exI [of _ "[]"]) simp
        qed
      qed
    qed
  qed
qed

lemma eir_found_shape:
  "\<exists>pre. list_all log_or_scan_stop pre \<and>
     (split_central_eir_found h env st data addr = (st, pre, True) \<or>
      split_central_eir_found h env st data addr =
        (fst (eir_connect h env st addr),
         pre @ [LOG_DBG ''Found the split service'', Bt_le_scan_stop]
           @ snd (eir_connect h env st addr),
         False))"
proof (cases "(ad_type data = BT_DATA_UUID128_SOME h \<or> ad_type data = BT_DATA_UUID128_ALL h) \<and>
              length (ad_data data) mod 16 = 0")
  case False
  then have "split_central_eir_found h env st data addr =
               (st, [LOG_DBG ''[AD]: %u data_len %u'', LOG_ERR ''AD malformed''], True) \<or>
             split_central_eir_found h env st data addr =
               (st, [LOG_DBG ''[AD]: %u data_len %u''], True)"
    by (auto simp: split_central_eir_found_def)
  then show ?thesis
  proof
    assume a: "split_central_eir_found h env st data addr =
               (st, [LOG_DBG ''[AD]: %u data_len %u'', LOG_ERR ''AD malformed''], True)"
    show ?thesis
      by (intro exI [of _ "[LOG_DBG ''[AD]: %u data_len %u'', LOG_ERR ''AD malformed'']"])
         (simp add: a)
  next
    assume a: "split_central_eir_found h env st data addr =
               (st, [LOG_DBG ''[AD]: %u data_len %u''], True)"
    show ?thesis
      by (intro exI [of _ "[LOG_DBG ''[AD]: %u data_len %u'']"]) (simp add: a)
  qed
next
  case True
  from eir_uuid_loop_shape [of h env st addr "ad_data data" 0 0] obtain pre where
    pre: "list_all log_or_scan_stop pre"
      "eir_uuid_loop h env st addr (ad_data data) 0 0 = (st, pre, True) \<or>
       eir_uuid_loop h env st addr (ad_data data) 0 0 =
         (fst (eir_connect h env st addr),
          pre @ [LOG_DBG ''Found the split service'', Bt_le_scan_stop]
            @ snd (eir_connect h env st addr), False)"
    by blast
  show ?thesis
    using True pre
    by (intro exI [of _ "LOG_DBG ''[AD]: %u data_len %u'' # pre"])
       (auto simp: split_central_eir_found_def)
qed

lemma eir_found_quiet:
  "subscribe_params (fst (split_central_eir_found h env st data addr)) = subscribe_params st"
  "raised (fst (snd (split_central_eir_found h env st data addr))) = []"
  using eir_found_shape [of h env st data addr]
  by (auto simp: eir_connect_quiet raised_append raised_log_or_scan_stop)

section \<open>After the unsubscribe signal\<close>

text \<open>
  After the unsubscribe signal the value handle of the record is 0. A call that is no part of
  a new subscription then raises no event and leaves the subscription record and the stored
  bitmap as they are, and so does every sequence of such calls.
\<close>

lemma deliver_after_unsubscribe:
  "value_handle (subscribe_params st) = 0 \<Longrightarrow> hnd \<noteq> 0 \<Longrightarrow>
   deliver_notification st c hnd payload len = Inr (st, [])"
  by (simp add: deliver_notification_def)

lemma fire_after_unsubscribe:
  assumes "value_handle (subscribe_params st) = 0" and "no_subscribe cb"
  shows "\<exists>st' tr. fire h st (env, cb) = Inr (st', tr) \<and> raised tr = [] \<and>
           subscribe_params st' = subscribe_params st \<and>
           position_state st' = position_state st"
proof (cases cb)
  case (Notification c hnd payload len)
  with assms show ?thesis by (simp add: deliver_after_unsubscribe)
next
  case (Connected c conn_err)
  then show ?thesis
    using connected_quiet [of h env st c conn_err]
      connected_keeps_position_state [of h env st c conn_err]
    by (cases "split_central_connected h env st c conn_err") simp
next
  case (Disconnected c reason)
  then show ?thesis
    using disconnected_quiet [of env st c reason]
      disconnected_keeps_position_state [of env st c reason]
    by (cases "split_central_disconnected env st c reason") simp
next
  case (Eir_found data addr)
  then show ?thesis
    using eir_found_quiet [of h env st data addr]
      eir_found_keeps_position_state [of h env st data addr]
    by (cases "split_central_eir_found h env st data addr") simp
next
  case (Discovery c attr)
  with assms(2) show ?thesis by simp
qed

lemma run_after_unsubscribe:
  assumes "value_handle (subscribe_params st) = 0" and "\<forall>cb \<in> set cbs. no_subscribe (snd cb)"
  shows "\<exists>st' tr. run h st cbs = Inr (st', tr) \<and> raised tr = [] \<and>
           subscribe_params st' = subscribe_params st \<and>
           position_state st' = position_state st"
  using assms
proof (induction cbs arbitrary: st)
  case Nil
  then show ?case by simp
next
  case (Cons cb cbs)
  obtain env x where cb: "cb = (env, x)" by (cases cb)
  with Cons.prems(2) have x: "no_subscribe x" by simp
  from fire_after_unsubscribe [OF Cons.prems(1) x, of h env] obtain st1 tr1 where
    f: "fire h st (env, x) = Inr (st1, tr1)" "raised tr1 = []"
       "subscribe_params st1 = subscribe_params st" "position_state st1 = position_state st"
    by blast
  from f(3) Cons.prems(1) have z: "value_handle (subscribe_params st1) = 0" by simp
  from Cons.prems(2) have rest: "\<forall>cb \<in> set cbs. no_subscribe (snd cb)" by simp
  from Cons.IH [OF z rest] obtain st2 tr2 where
    r: "run h st1 cbs = Inr (st2, tr2)" "raised tr2 = []"
       "subscribe_params st2 = subscribe_params st1" "position_state st2 = position_state st1"
    by blast
  show ?case
    using cb f r by (simp add: raised_append)
qed

section \<open>Claims about the notification callback\<close>

text \<open>
  C1. With a stored bitmap and a payload of sixteen bytes each, the callback raises exactly
  the events of the specification's decoder: one event per position where the two bitmaps
  differ, none where they agree, \<open>position = i * 8 + j\<close> for bit \<open>j\<close> of byte \<open>i\<close>, the
  pressed flag equal to that bit of the payload, in ascending order of position. The payload
  becomes the stored bitmap. The events are a function of the two bitmaps alone, so two runs
  on the same bitmaps raise the same sequence.
\<close>
theorem C1_notification_decodes_diff:
  assumes "length (position_state st) = 16" and "length current = 16"
  shows "\<exists>tr. split_central_notify_func st c (Some current) len =
           Inr (st\<lparr>position_state := current\<rparr>, tr, BT_GATT_ITER_CONTINUE) \<and>
         raised tr = decode_spec (position_state st) current \<and>
         map (\<lambda>e. unat (position e)) (raised tr) =
           filter (\<lambda>p. key_bit (position_state st) p \<noteq> key_bit current p) [0..<128]"
  using notify_func_payload [of st current c len] assms
  by (auto simp: decode_spec_positions)

text \<open>
  C1 on a run: keys 0, 17 and 23 are held; the payload releases 0 and 17, keeps 23 and
  presses 26.
\<close>
theorem C1_notification_decodes_diff_witness:
  "length (position_state (sample_subscribed\<lparr>position_state := 1 # 0 # 0x82 # replicate 13 0\<rparr>)) = 16 \<and>
   length (0 # 0 # 0x80 # 4 # replicate 12 (0 :: u8)) = 16 \<and>
   (\<exists>tr. split_central_notify_func
            (sample_subscribed\<lparr>position_state := 1 # 0 # 0x82 # replicate 13 0\<rparr>) 1
            (Some (0 # 0 # 0x80 # 4 # replicate 12 0)) 16 =
          Inr (sample_subscribed\<lparr>position_state := 0 # 0 # 0x80 # 4 # replicate 12 0\<rparr>, tr,
               BT_GATT_ITER_CONTINUE) \<and>
          raised tr =
            [\<lparr>position = 0, state = False\<rparr>, \<lparr>position = 17, state = False\<rparr>,
             \<lparr>position = 26, state = True\<rparr>])"
proof -
  let ?st = "sample_subscribed\<lparr>position_state := 1 # 0 # 0x82 # replicate 13 0\<rparr>"
  let ?cur = "0 # 0 # 0x80 # 4 # replicate 12 (0 :: u8)"
  have prev: "length (position_state ?st) = 16" by simp
  have cur: "length ?cur = 16" by simp
  have ev: "decode_spec (1 # 0 # 0x82 # replicate 13 0) ?cur =
            [\<lparr>position = 0, state = False\<rparr>, \<lparr>position = 17, state = False\<rparr>,
             \<lparr>position = 26, state = True\<rparr>]"
    by code_simp
  from C1_notification_decodes_diff [OF prev cur, of 1 16] ev
  show ?thesis by simp blast
qed

text \<open>
  C2 as stated does not hold. A payload of seventeen bytes, its first bit set, arrives while
  the stored bitmap is zero: the length differs from sixteen, and the callback raises the
  event for position 0.
\<close>
theorem C2_counterexample:
  "length (1 # replicate 16 (0 :: u8)) \<noteq> 16 \<and>
   split_central_notify_func sample_subscribed 1 (Some (1 # replicate 16 0)) 17 =
     Inr (sample_pressed,
          [LOG_DBG ''[NOTIFICATION] data %p length %u'',
           LOG_DBG ''Trigger key position state change for %d'',
           ZMK_EVENT_RAISE \<lparr>position = 0, state = True\<rparr>],
          BT_GATT_ITER_CONTINUE)"
  by code_simp

text \<open>
  C2, amended. The callback does not compare the payload length with sixteen. Whatever the
  length argument, a payload of sixteen bytes or more is decoded from its first sixteen
  bytes: they are diffed against the stored bitmap, the events of the differing bits are
  raised, and they become the stored bitmap.
\<close>
theorem C2_length_not_checked:
  assumes "length (position_state st) = 16" and "16 \<le> length bs"
  shows "\<exists>tr. split_central_notify_func st c (Some bs) len =
           Inr (st\<lparr>position_state := take 16 bs\<rparr>, tr, BT_GATT_ITER_CONTINUE) \<and>
         raised tr = decode_spec (position_state st) (take 16 bs)"
  using assms by (rule notify_func_payload)

text \<open>C2, amended, on a payload of eighteen bytes.\<close>
theorem C2_length_not_checked_witness:
  "length (position_state sample_subscribed) = 16 \<and>
   16 \<le> length (2 # replicate 16 0 @ [0xff :: u8]) \<and>
   (\<exists>tr. split_central_notify_func sample_subscribed 1 (Some (2 # replicate 16 0 @ [0xff])) 18 =
          Inr (sample_subscribed\<lparr>position_state := 2 # replicate 15 0\<rparr>, tr,
               BT_GATT_ITER_CONTINUE) \<and>
          raised tr = [\<lparr>position = 1, state = True\<rparr>])"
proof -
  have prev: "length (position_state sample_subscribed) = 16" by (rule sample_lengths)
  have bs: "16 \<le> length (2 # replicate 16 0 @ [0xff :: u8])" by simp
  have ev: "decode_spec (position_state sample_subscribed) (2 # replicate 15 0) =
            [\<lparr>position = 1, state = True\<rparr>]"
    by code_simp
  from C2_length_not_checked [OF prev bs, of 1 18] ev prev
  show ?thesis by simp
qed

section \<open>Claims about discovery\<close>

text \<open>
  C3 as stated does not hold for every handle. The start handle is a 16-bit field. In the
  service phase an attribute at handle \<open>0xFFFF\<close> gives the start handle 0, stored and sent,
  where \<open>h + 1\<close> is 65536; in the characteristic phase an attribute at handle \<open>0xFFFE\<close>
  gives 0 as well, where \<open>h' + 2\<close> is 65536.
\<close>
theorem C3_counterexample:
  "split_central_discovery_func sample_hdr ok_stack sample_service_phase 1
      (Some \<lparr>handle = 0xFFFF, attr_value_handle = 0\<rparr>) =
     Inr (sample_char_phase\<lparr>discover_params := (discover_params sample_char_phase)\<lparr>start_handle := 0\<rparr>\<rparr>,
          [LOG_DBG ''[ATTRIBUTE] handle %u'',
           Bt_gatt_discover 1 ((discover_params sample_char_phase)\<lparr>start_handle := 0\<rparr>)
             (ZMK_SPLIT_BT_CHAR_POSITION_STATE_UUID sample_hdr)],
          BT_GATT_ITER_STOP) \<and>
   unat (0 :: u16) \<noteq> unat (0xFFFF :: u16) + 1 \<and>
   split_central_discovery_func sample_hdr ok_stack sample_char_phase 1
      (Some \<lparr>handle = 0xFFFE, attr_value_handle = 0xFFFF\<rparr>) =
     Inr (sample_descriptor_phase
            \<lparr>discover_params := (discover_params sample_descriptor_phase)\<lparr>start_handle := 0\<rparr>,
             subscribe_params := (subscribe_params sample_descriptor_phase)\<lparr>value_handle := 0xFFFF\<rparr>\<rparr>,
          [LOG_DBG ''[ATTRIBUTE] handle %u'',
           Bt_gatt_discover 1 ((discover_params sample_descriptor_phase)\<lparr>start_handle := 0\<rparr>)
             (BT_UUID_GATT_CCC sample_hdr)],
          BT_GATT_ITER_STOP) \<and>
   unat (0 :: u16) \<noteq> unat (0xFFFE :: u16) + 2"
proof -
  have "split_central_discovery_func sample_hdr ok_stack sample_service_phase 1
      (Some \<lparr>handle = 0xFFFF, attr_value_handle = 0\<rparr>) =
     Inr (sample_char_phase\<lparr>discover_params := (discover_params sample_char_phase)\<lparr>start_handle := 0\<rparr>\<rparr>,
          [LOG_DBG ''[ATTRIBUTE] handle %u'',
           Bt_gatt_discover 1 ((discover_params sample_char_phase)\<lparr>start_handle := 0\<rparr>)
             (ZMK_SPLIT_BT_CHAR_POSITION_STATE_UUID sample_hdr)],
          BT_GATT_ITER_STOP)"
    by code_simp
  moreover have "split_central_discovery_func sample_hdr ok_stack sample_char_phase 1
      (Some \<lparr>handle = 0xFFFE, attr_value_handle = 0xFFFF\<rparr>) =
     Inr (sample_descriptor_phase
            \<lparr>discover_params := (discover_params sample_descriptor_phase)\<lparr>start_handle := 0\<rparr>,
             subscribe_params := (subscribe_params sample_descriptor_phase)\<lparr>value_handle := 0xFFFF\<rparr>\<rparr>,
          [LOG_DBG ''[ATTRIBUTE] handle %u'',
           Bt_gatt_discover 1 ((discover_params sample_descriptor_phase)\<lparr>start_handle := 0\<rparr>)
             (BT_UUID_GATT_CCC sample_hdr)],
          BT_GATT_ITER_STOP)"
    by code_simp
  moreover have "unat (0 :: u16) \<noteq> unat (0xFFFF :: u16) + 1"
    and "unat (0 :: u16) \<noteq> unat (0xFFFE :: u16) + 2"
    by simp_all
  ultimately show ?thesis by blast
qed

text \<open>
  C3, amended. In the service phase (\<^verbatim>\<open>bt_uuid_cmp\<close> of the searched UUID and the service
  UUID is 0) an attribute at a handle \<open>h\<close> below \<open>0xFFFF\<close> moves discovery to the
  characteristic UUID with the search starting at \<open>h + 1\<close>; in the characteristic phase
  (that comparison is not 0, the one with the characteristic UUID is) an attribute at a
  handle \<open>h'\<close> below \<open>0xFFFE\<close> moves it to the descriptor UUID with the search starting at
  \<open>h' + 2\<close>, and its value handle is stored in the subscription record. The new start handle
  is stored in the cursor and sent in the one discovery request of the callback; the rest of
  the cursor and the other variables stay as they are.
\<close>
theorem C3_discovery_start_handles:
  assumes "dp_uuid (discover_params st) = UUID_STATIC"
  shows
    "(bt_uuid_cmp h (uuid st) (ZMK_SPLIT_BT_SERVICE_UUID h) = 0 \<and> unat (handle a) < 65535 \<longrightarrow>
        (\<exists>st' tr. split_central_discovery_func h env st c (Some a) = Inr (st', tr, BT_GATT_ITER_STOP) \<and>
           unat (start_handle (discover_params st')) = unat (handle a) + 1 \<and>
           st' = st\<lparr>uuid := ZMK_SPLIT_BT_CHAR_POSITION_STATE_UUID h,
                    discover_params := (discover_params st)
                      \<lparr>start_handle := handle a + 1,
                       dp_type := BT_GATT_DISCOVER_CHARACTERISTIC h\<rparr>\<rparr> \<and>
           discover_requests tr =
             [(c, discover_params st', ZMK_SPLIT_BT_CHAR_POSITION_STATE_UUID h)])) \<and>
     (bt_uuid_cmp h (uuid st) (ZMK_SPLIT_BT_SERVICE_UUID h) \<noteq> 0 \<and>
      bt_uuid_cmp h (uuid st) (ZMK_SPLIT_BT_CHAR_POSITION_STATE_UUID h) = 0 \<and>
      unat (handle a) < 65534 \<longrightarrow>
        (\<exists>st' tr. split_central_discovery_func h env st c (Some a) = Inr (st', tr, BT_GATT_ITER_STOP) \<and>
           unat (start_handle (discover_params st')) = unat (handle a) + 2 \<and>
           st' = st\<lparr>uuid := BT_UUID_GATT_CCC h,
                    discover_params := (discover_params st)
                      \<lparr>start_handle := handle a + 2,
                       dp_type := BT_GATT_DISCOVER_DESCRIPTOR h\<rparr>,
                    subscribe_params := (subscribe_params st)
                      \<lparr>value_handle := attr_value_handle a\<rparr>\<rparr> \<and>
           discover_requests tr = [(c, discover_params st', BT_UUID_GATT_CCC h)]))"
proof (intro conjI impI)
  assume a1: "bt_uuid_cmp h (uuid st) (ZMK_SPLIT_BT_SERVICE_UUID h) = 0 \<and> unat (handle a) < 65535"
  then have eq: "bt_uuid_cmp h (uuid st) (ZMK_SPLIT_BT_SERVICE_UUID h) = 0"
    and lt: "unat (handle a) < 65535" by blast+
  have ptr: "(discover_params st)\<lparr>dp_uuid := UUID_STATIC\<rparr> = discover_params st"
    using assms by simp
  from discovery_service_phase [OF assms eq, of env c a] lt ptr
  show "\<exists>st' tr. split_central_discovery_func h env st c (Some a) = Inr (st', tr, BT_GATT_ITER_STOP) \<and>
           unat (start_handle (discover_params st')) = unat (handle a) + 1 \<and>
           st' = st\<lparr>uuid := ZMK_SPLIT_BT_CHAR_POSITION_STATE_UUID h,
                    discover_params := (discover_params st)
                      \<lparr>start_handle := handle a + 1,
                       dp_type := BT_GATT_DISCOVER_CHARACTERISTIC h\<rparr>\<rparr> \<and>
           discover_requests tr =
             [(c, discover_params st', ZMK_SPLIT_BT_CHAR_POSITION_STATE_UUID h)]"
    by (simp add: unat_handle_plus_1)
next
  assume a2: "bt_uuid_cmp h (uuid st) (ZMK_SPLIT_BT_SERVICE_UUID h) \<noteq> 0 \<and>
      bt_uuid_cmp h (uuid st) (ZMK_SPLIT_BT_CHAR_POSITION_STATE_UUID h) = 0 \<and>
      unat (handle a) < 65534"
  then have ne: "bt_uuid_cmp h (uuid st) (ZMK_SPLIT_BT_SERVICE_UUID h) \<noteq> 0"
    and eq: "bt_uuid_cmp h (uuid st) (ZMK_SPLIT_BT_CHAR_POSITION_STATE_UUID h) = 0"
    and lt: "unat (handle a) < 65534" by blast+
  have ptr: "(discover_params st)\<lparr>dp_uuid := UUID_STATIC\<rparr> = discover_params st"
    using assms by simp
  from discovery_char_phase [OF assms ne eq, of env c a] lt ptr
  show "\<exists>st' tr. split_central_discovery_func h env st c (Some a) = Inr (st', tr, BT_GATT_ITER_STOP) \<and>
           unat (start_handle (discover_params st')) = unat (handle a) + 2 \<and>
           st' = st\<lparr>uuid := BT_UUID_GATT_CCC h,
                    discover_params := (discover_params st)
                      \<lparr>start_handle := handle a + 2,
                       dp_type := BT_GATT_DISCOVER_DESCRIPTOR h\<rparr>,
                    subscribe_params := (subscribe_params st)
                      \<lparr>value_handle := attr_value_handle a\<rparr>\<rparr> \<and>
           discover_requests tr = [(c, discover_params st', BT_UUID_GATT_CCC h)]"
    by (simp add: unat_handle_plus_2)
qed

text \<open>
  C3, amended, on the specification's example: a service match at handle 10 gives a start at
  11, a characteristic match at handle 20 gives a start at 22; the variables after the two
  callbacks are those of the sample run.
\<close>
theorem C3_discovery_start_handles_witness:
  "dp_uuid (discover_params sample_service_phase) = UUID_STATIC \<and>
   bt_uuid_cmp sample_hdr (uuid sample_service_phase) (ZMK_SPLIT_BT_SERVICE_UUID sample_hdr) = 0 \<and>
   unat (handle \<lparr>handle = 10, attr_value_handle = 0\<rparr>) < 65535 \<and>
   (\<exists>st' tr. split_central_discovery_func sample_hdr ok_stack sample_service_phase 1
                (Some \<lparr>handle = 10, attr_value_handle = 0\<rparr>) = Inr (st', tr, BT_GATT_ITER_STOP) \<and>
       unat (start_handle (discover_params st')) =
         unat (handle \<lparr>handle = 10, attr_value_handle = 0\<rparr>) + 1 \<and>
       st' = sample_service_phase
               \<lparr>uuid := ZMK_SPLIT_BT_CHAR_POSITION_STATE_UUID sample_hdr,
                discover_params := (discover_params sample_service_phase)
                  \<lparr>start_handle := handle \<lparr>handle = 10, attr_value_handle = 0\<rparr> + 1,
                   dp_type := BT_GATT_DISCOVER_CHARACTERISTIC sample_hdr\<rparr>\<rparr> \<and>
       discover_requests tr =
         [(1, discover_params st', ZMK_SPLIT_BT_CHAR_POSITION_STATE_UUID sample_hdr)]) \<and>
   unat (start_handle (discover_params sample_char_phase)) = 11 \<and>
   dp_uuid (discover_params sample_char_phase) = UUID_STATIC \<and>
   bt_uuid_cmp sample_hdr (uuid sample_char_phase) (ZMK_SPLIT_BT_SERVICE_UUID sample_hdr) \<noteq> 0 \<and>
   bt_uuid_cmp sample_hdr (uuid sample_char_phase)
     (ZMK_SPLIT_BT_CHAR_POSITION_STATE_UUID sample_hdr) = 0 \<and>
   unat (handle \<lparr>handle = 20, attr_value_handle = 21\<rparr>) < 65534 \<and>
   (\<exists>st' tr. split_central_discovery_func sample_hdr ok_stack sample_char_phase 1
                (Some \<lparr>handle = 20, attr_value_handle = 21\<rparr>) = Inr (st', tr, BT_GATT_ITER_STOP) \<and>
       unat (start_handle (discover_params st')) =
         unat (handle \<lparr>handle = 20, attr_value_handle = 21\<rparr>) + 2 \<and>
       st' = sample_char_phase
               \<lparr>uuid := BT_UUID_GATT_CCC sample_hdr,
                discover_params := (discover_params sample_char_phase)
                  \<lparr>start_handle := handle \<lparr>handle = 20, attr_value_handle = 21\<rparr> + 2,
                   dp_type := BT_GATT_DISCOVER_DESCRIPTOR sample_hdr\<rparr>,
                subscribe_params := (subscribe_params sample_char_phase)
                  \<lparr>value_handle := attr_value_handle \<lparr>handle = 20, attr_value_handle = 21\<rparr>\<rparr>\<rparr> \<and>
       discover_requests tr = [(1, discover_params st', BT_UUID_GATT_CCC sample_hdr)]) \<and>
   unat (start_handle (discover_params sample_descriptor_phase)) = 22"
proof -
  have s: "dp_uuid (discover_params sample_service_phase) = UUID_STATIC"
    and su: "bt_uuid_cmp sample_hdr (uuid sample_service_phase) (ZMK_SPLIT_BT_SERVICE_UUID sample_hdr) = 0"
    by code_simp+
  have c: "dp_uuid (discover_params sample_char_phase) = UUID_STATIC"
    and cu: "bt_uuid_cmp sample_hdr (uuid sample_char_phase) (ZMK_SPLIT_BT_SERVICE_UUID sample_hdr) \<noteq> 0"
        "bt_uuid_cmp sample_hdr (uuid sample_char_phase)
           (ZMK_SPLIT_BT_CHAR_POSITION_STATE_UUID sample_hdr) = 0"
    by code_simp+
  have lt: "unat (handle \<lparr>handle = 10, attr_value_handle = 0\<rparr>) < 65535"
    "unat (handle \<lparr>handle = 20, attr_value_handle = 21\<rparr>) < 65534"
    by simp_all
  have n: "unat (start_handle (discover_params sample_char_phase)) = 11"
    "unat (start_handle (discover_params sample_descriptor_phase)) = 22"
    by (simp_all add: sample_char_phase_def sample_descriptor_phase_def)
  note C3_discovery_start_handles [OF s, of sample_hdr "\<lparr>handle = 10, attr_value_handle = 0\<rparr>" ok_stack 1]
       C3_discovery_start_handles [OF c, of sample_hdr "\<lparr>handle = 20, attr_value_handle = 21\<rparr>" ok_stack 1]
  with s su c cu lt n show ?thesis by blast
qed

text \<open>
  C4 as stated does not hold. In the service phase the discovery request for the
  characteristic is refused with \<open>- 12\<close>: the callback logs the failure and returns, and its
  trace holds no scan start.
\<close>
theorem C4_counterexample:
  "bt_gatt_discover_rc (ok_stack\<lparr>bt_gatt_discover_rc := - 12\<rparr>) \<noteq> 0 \<and>
   split_central_discovery_func sample_hdr (ok_stack\<lparr>bt_gatt_discover_rc := - 12\<rparr>)
      sample_service_phase 1 (Some \<lparr>handle = 10, attr_value_handle = 0\<rparr>) =
     Inr (sample_char_phase,
          [LOG_DBG ''[ATTRIBUTE] handle %u'',
           Bt_gatt_discover 1 (discover_params sample_char_phase)
             (ZMK_SPLIT_BT_CHAR_POSITION_STATE_UUID sample_hdr),
           LOG_ERR ''Discover failed (err %d)''],
          BT_GATT_ITER_STOP) \<and>
   Bt_le_scan_start \<notin> set
          [LOG_DBG ''[ATTRIBUTE] handle %u'',
           Bt_gatt_discover 1 (discover_params sample_char_phase)
             (ZMK_SPLIT_BT_CHAR_POSITION_STATE_UUID sample_hdr),
           LOG_ERR ''Discover failed (err %d)'']"
  by code_simp

text \<open>
  C4, amended. When the discovery request of a phase transition is refused, the callback
  logs the failure at error level and stops the walk; it starts no scan and keeps the tracked
  connection. The trace is exactly the attribute log line, the refused request and the error
  log line.
\<close>
theorem C4_discover_failure_logged_only:
  assumes "dp_uuid (discover_params st) = UUID_STATIC"
    and "bt_uuid_cmp h (uuid st) (ZMK_SPLIT_BT_SERVICE_UUID h) = 0 \<or> bt_uuid_cmp h (uuid st) (ZMK_SPLIT_BT_CHAR_POSITION_STATE_UUID h) = 0"
    and "bt_gatt_discover_rc env \<noteq> 0"
  shows "\<exists>st' tr. split_central_discovery_func h env st c (Some a) = Inr (st', tr, BT_GATT_ITER_STOP) \<and>
           tr = [LOG_DBG ''[ATTRIBUTE] handle %u'',
                 Bt_gatt_discover c (discover_params st') (uuid st'),
                 LOG_ERR ''Discover failed (err %d)''] \<and>
           Bt_le_scan_start \<notin> set tr \<and>
           default_conn st' = default_conn st"
proof (cases "bt_uuid_cmp h (uuid st) (ZMK_SPLIT_BT_SERVICE_UUID h) = 0")
  case True
  from discovery_service_phase [OF assms(1) True, of env c a] assms(3)
  show ?thesis by simp
next
  case False
  with assms(2) have "bt_uuid_cmp h (uuid st) (ZMK_SPLIT_BT_CHAR_POSITION_STATE_UUID h) = 0" by simp
  from discovery_char_phase [OF assms(1) False this, of env c a] assms(3)
  show ?thesis by simp
qed

text \<open>C4, amended, on the refused request of the characteristic phase.\<close>
theorem C4_discover_failure_logged_only_witness:
  "dp_uuid (discover_params sample_char_phase) = UUID_STATIC \<and>
   bt_uuid_cmp sample_hdr (uuid sample_char_phase) (ZMK_SPLIT_BT_CHAR_POSITION_STATE_UUID sample_hdr) = 0 \<and>
   bt_gatt_discover_rc (ok_stack\<lparr>bt_gatt_discover_rc := - 12\<rparr>) \<noteq> 0 \<and>
   (\<exists>st' tr. split_central_discovery_func sample_hdr (ok_stack\<lparr>bt_gatt_discover_rc := - 12\<rparr>)
                sample_char_phase 1 (Some \<lparr>handle = 20, attr_value_handle = 21\<rparr>) =
              Inr (st', tr, BT_GATT_ITER_STOP) \<and>
       tr = [LOG_DBG ''[ATTRIBUTE] handle %u'',
             Bt_gatt_discover 1 (discover_params st') (uuid st'),
             LOG_ERR ''Discover failed (err %d)''] \<and>
       Bt_le_scan_start \<notin> set tr \<and>
       default_conn st' = Some 1)"
proof -
  have p: "dp_uuid (discover_params sample_char_phase) = UUID_STATIC"
    by (simp add: sample_char_phase_def)
  have u: "bt_uuid_cmp sample_hdr (uuid sample_char_phase) (ZMK_SPLIT_BT_SERVICE_UUID sample_hdr) = 0 \<or>
           bt_uuid_cmp sample_hdr (uuid sample_char_phase) (ZMK_SPLIT_BT_CHAR_POSITION_STATE_UUID sample_hdr) = 0"
    by code_simp
  have u': "bt_uuid_cmp sample_hdr (uuid sample_char_phase) (ZMK_SPLIT_BT_CHAR_POSITION_STATE_UUID sample_hdr) = 0"
    by code_simp
  have r: "bt_gatt_discover_rc (ok_stack\<lparr>bt_gatt_discover_rc := - 12\<rparr>) \<noteq> 0" by simp
  have d: "default_conn sample_char_phase = Some 1"
    by (simp add: sample_char_phase_def sample_service_phase_def)
  from C4_discover_failure_logged_only [OF p u r, of 1 "\<lparr>handle = 20, attr_value_handle = 21\<rparr>"] p d u'
  show ?thesis by simp
qed

section \<open>Claims about subscriptions\<close>




text \<open>
  C6. On an absent payload the callback resets the value handle of the subscription record
  to 0, raises no event, leaves every other variable as it is and returns
  \<^verbatim>\<open>BT_GATT_ITER_STOP\<close>. From then on a payload arriving on an attribute handle, in
  particular on the handle the record held, is not handed to the callback: it raises no
  event and changes no variable. This stays so through every sequence of further arrivals,
  connection callbacks and advertising data elements, until the discovery callback runs
  again, which is where a new subscription is made.
\<close>
theorem C6_unsubscribed_until_resubscribed:
  assumes "hnd \<noteq> 0" and "\<forall>cb \<in> set cbs. no_subscribe (snd cb)"
  shows "split_central_notify_func st c None len =
           Inr (st\<lparr>subscribe_params := (subscribe_params st)\<lparr>value_handle := 0\<rparr>\<rparr>,
                [LOG_DBG ''[UNSUBSCRIBED]''], BT_GATT_ITER_STOP) \<and>
         raised [LOG_DBG ''[UNSUBSCRIBED]''] = [] \<and>
         deliver_notification
             (st\<lparr>subscribe_params := (subscribe_params st)\<lparr>value_handle := 0\<rparr>\<rparr>)
             c' hnd payload len' =
           Inr (st\<lparr>subscribe_params := (subscribe_params st)\<lparr>value_handle := 0\<rparr>\<rparr>, []) \<and>
         (\<exists>st' tr. run h (st\<lparr>subscribe_params := (subscribe_params st)\<lparr>value_handle := 0\<rparr>\<rparr>) cbs =
                      Inr (st', tr) \<and>
                    raised tr = [] \<and>
                    subscribe_params st' = (subscribe_params st)\<lparr>value_handle := 0\<rparr> \<and>
                    position_state st' = position_state st)"
proof -
  let ?st = "st\<lparr>subscribe_params := (subscribe_params st)\<lparr>value_handle := 0\<rparr>\<rparr>"
  have z: "value_handle (subscribe_params ?st) = 0" by simp
  from run_after_unsubscribe [OF z assms(2), of h]
  have "\<exists>st' tr. run h ?st cbs = Inr (st', tr) \<and> raised tr = [] \<and>
          subscribe_params st' = (subscribe_params st)\<lparr>value_handle := 0\<rparr> \<and>
          position_state st' = position_state st"
    by simp
  with deliver_after_unsubscribe [OF z assms(1), of c' payload len']
  show ?thesis by (simp add: notify_func_unsubscribed)
qed

text \<open>
  C6 on the subscribed variables of the sample run, whose record holds handle 21. Ahead of
  the signal a payload on handle 21 is decoded and presses key 0. After the signal the same
  payload on handle 21 raises nothing, alone and within a sequence in which the connection
  drops, an advertisement is seen and the payload arrives twice more.
\<close>
theorem C6_unsubscribed_until_resubscribed_witness:
  "(21 :: u16) \<noteq> 0 \<and>
   no_subscribe (Notification 1 21 (1 # replicate 15 0) 16) \<and>
   no_subscribe (Disconnected 1 19) \<and>
   no_subscribe (Eir_found \<lparr>ad_type = 7, ad_data = replicate 16 0x55\<rparr> 42) \<and>
   deliver_notification sample_subscribed 1 21 (1 # replicate 15 0) 16 =
     Inr (sample_pressed,
          [LOG_DBG ''[NOTIFICATION] data %p length %u'',
           LOG_DBG ''Trigger key position state change for %d'',
           ZMK_EVENT_RAISE \<lparr>position = 0, state = True\<rparr>]) \<and>
   split_central_notify_func sample_subscribed 1 None 0 =
     Inr (sample_subscribed
            \<lparr>subscribe_params := (subscribe_params sample_subscribed)\<lparr>value_handle := 0\<rparr>\<rparr>,
          [LOG_DBG ''[UNSUBSCRIBED]''], BT_GATT_ITER_STOP) \<and>
   deliver_notification
       (sample_subscribed
          \<lparr>subscribe_params := (subscribe_params sample_subscribed)\<lparr>value_handle := 0\<rparr>\<rparr>)
       1 21 (1 # replicate 15 0) 16 =
     Inr (sample_subscribed
            \<lparr>subscribe_params := (subscribe_params sample_subscribed)\<lparr>value_handle := 0\<rparr>\<rparr>, []) \<and>
   (\<exists>st' tr. run sample_hdr
                (sample_subscribed
                   \<lparr>subscribe_params := (subscribe_params sample_subscribed)\<lparr>value_handle := 0\<rparr>\<rparr>)
                [(ok_stack, Notification 1 21 (1 # replicate 15 0) 16),
                 (ok_stack, Disconnected 1 19),
                 (ok_stack, Eir_found \<lparr>ad_type = 7, ad_data = replicate 16 0x55\<rparr> 42),
                 (ok_stack, Notification 1 21 (1 # replicate 15 0) 16)] = Inr (st', tr) \<and>
              raised tr = [] \<and>
              position_state st' = position_state sample_subscribed)"
proof -
  let ?cbs = "[(ok_stack, Notification 1 21 (1 # replicate 15 0) 16),
              (ok_stack, Disconnected 1 19),
              (ok_stack, Eir_found \<lparr>ad_type = 7, ad_data = replicate 16 0x55\<rparr> 42),
              (ok_stack, Notification 1 21 (1 # replicate 15 0) 16)]"
  have h: "(21 :: u16) \<noteq> 0" by simp
  have q: "\<forall>cb \<in> set ?cbs. no_subscribe (snd cb)" by simp
  have before: "deliver_notification sample_subscribed 1 21 (1 # replicate 15 0) 16 =
     Inr (sample_pressed,
          [LOG_DBG ''[NOTIFICATION] data %p length %u'',
           LOG_DBG ''Trigger key position state change for %d'',
           ZMK_EVENT_RAISE \<lparr>position = 0, state = True\<rparr>])"
    by code_simp
  note C6_unsubscribed_until_resubscribed
         [OF h q, of sample_subscribed 1 0 1 "1 # replicate 15 0" 16 sample_hdr]
  moreover have "no_subscribe (Notification 1 21 (1 # replicate 15 0) 16)"
    "no_subscribe (Disconnected 1 19)"
    "no_subscribe (Eir_found \<lparr>ad_type = 7, ad_data = replicate 16 0x55\<rparr> 42)"
    by simp_all
  ultimately show ?thesis using h before by blast
qed




section \<open>Claims about the connection life cycle\<close>

text \<open>
  C8. A disconnect callback for a connection other than the tracked one changes nothing: the
  variables (tracked connection, discovery parameters, subscription record, stored bitmap,
  UUID buffer) are returned as they were, and the trace is the one debug log line, so no scan
  is started and nothing is released.
\<close>
theorem C8_stale_disconnect_ignored:
  assumes "default_conn st \<noteq> Some c"
  shows "split_central_disconnected env st c reason =
           (st, [LOG_DBG ''Disconnected: %s (reason %d)''])"
  using assms by (simp add: split_central_disconnected_def)

text \<open>C8 on the subscribed variables, which track connection 1, and a disconnect of connection 2.\<close>
theorem C8_stale_disconnect_ignored_witness:
  "default_conn sample_subscribed \<noteq> Some 2 \<and>
   split_central_disconnected ok_stack sample_subscribed 2 19 =
     (sample_subscribed, [LOG_DBG ''Disconnected: %s (reason %d)'']) \<and>
   Bt_le_scan_start \<notin> set (snd (split_central_disconnected ok_stack sample_subscribed 2 19))"
proof -
  have d: "default_conn sample_subscribed \<noteq> Some 2" by code_simp
  from C8_stale_disconnect_ignored [OF d, of ok_stack 19] d
  show ?thesis by simp
qed

text \<open>
  C9. On a disconnect of the tracked connection, and on a connect completion that reports an
  error, the callback drops its reference, sets the tracked connection to none, leaves the
  other variables alone and calls \<^verbatim>\<open>start_scan\<close>, which asks the stack to start scanning
  and logs the outcome; then it returns.
\<close>
theorem C9_release_and_rescan:
  "(default_conn st = Some c \<longrightarrow>
      (\<exists>l. split_central_disconnected env st c reason =
         (st\<lparr>default_conn := None\<rparr>,
          [LOG_DBG ''Disconnected: %s (reason %d)'', Bt_conn_unref (Some c), Bt_le_scan_start, l]))) \<and>
   (conn_err \<noteq> 0 \<longrightarrow>
      (\<exists>l. split_central_connected h env st c conn_err =
         (st\<lparr>default_conn := None\<rparr>,
          [LOG_ERR ''Failed to connect to %s (%u)'', Bt_conn_unref (default_conn st),
           Bt_le_scan_start, l])))"
  using start_scan_trace [of env 0]
  by (auto simp: split_central_disconnected_def split_central_connected_def)

text \<open>C9 on the subscribed variables: connection 1 disconnects; a connect fails with code 2.\<close>
theorem C9_release_and_rescan_witness:
  "default_conn sample_subscribed = Some 1 \<and>
   (2 :: u8) \<noteq> 0 \<and>
   split_central_disconnected ok_stack sample_subscribed 1 19 =
     (sample_subscribed\<lparr>default_conn := None\<rparr>,
      [LOG_DBG ''Disconnected: %s (reason %d)'', Bt_conn_unref (Some 1), Bt_le_scan_start,
       LOG_DBG ''Scanning successfully started'']) \<and>
   split_central_connected sample_hdr ok_stack sample_subscribed 1 2 =
     (sample_subscribed\<lparr>default_conn := None\<rparr>,
      [LOG_ERR ''Failed to connect to %s (%u)'', Bt_conn_unref (Some 1), Bt_le_scan_start,
       LOG_DBG ''Scanning successfully started''])"
proof -
  have d: "default_conn sample_subscribed = Some 1" by code_simp
  have e: "(2 :: u8) \<noteq> 0" by simp
  have l1: "snd (split_central_disconnected ok_stack sample_subscribed 1 19) ! 3 =
            LOG_DBG ''Scanning successfully started''"
    by code_simp
  have l2: "snd (split_central_connected sample_hdr ok_stack sample_subscribed 1 2) ! 3 =
            LOG_DBG ''Scanning successfully started''"
    by code_simp
  from C9_release_and_rescan [of sample_subscribed 1 ok_stack 19 2 sample_hdr] d e l1 l2
  show ?thesis by auto
qed

text \<open>
  C10 as stated does not hold in its order. The creation of the connection fails and stores
  no handle; the update of the PHY is answered 0. Scanning is started on the failed creation,
  ahead of the PHY request, and not again after it.
\<close>
theorem C10_counterexample:
  "bt_conn_le_create_rc (ok_stack\<lparr>bt_conn_le_create_rc := - 5, bt_conn_le_create_conn := None\<rparr>) \<noteq> 0 \<and>
   split_central_eir_found sample_hdr
       (ok_stack\<lparr>bt_conn_le_create_rc := - 5, bt_conn_le_create_conn := None\<rparr>)
       (init_central sample_hdr) \<lparr>ad_type = 7, ad_data = replicate 16 0x55\<rparr> 42 =
     (init_central sample_hdr,
      [LOG_DBG ''[AD]: %u data_len %u'', LOG_DBG ''Found the split service'', Bt_le_scan_stop,
       Bt_conn_lookup_addr_le 42, Bt_conn_le_create 42,
       LOG_ERR ''Create conn failed (err %d)'', Bt_le_scan_start,
       LOG_DBG ''Scanning successfully started'', Bt_conn_le_phy_update None],
      False) \<and>
   occurs_before Bt_le_scan_start (Bt_conn_le_phy_update None)
      [LOG_DBG ''[AD]: %u data_len %u'', LOG_DBG ''Found the split service'', Bt_le_scan_stop,
       Bt_conn_lookup_addr_le 42, Bt_conn_le_create 42,
       LOG_ERR ''Create conn failed (err %d)'', Bt_le_scan_start,
       LOG_DBG ''Scanning successfully started'', Bt_conn_le_phy_update None] \<and>
   \<not> occurs_before (Bt_conn_le_phy_update None) Bt_le_scan_start
      [LOG_DBG ''[AD]: %u data_len %u'', LOG_DBG ''Found the split service'', Bt_le_scan_stop,
       Bt_conn_lookup_addr_le 42, Bt_conn_le_create 42,
       LOG_ERR ''Create conn failed (err %d)'', Bt_le_scan_start,
       LOG_DBG ''Scanning successfully started'', Bt_conn_le_phy_update None]"
  by code_simp

text \<open>
  C10, amended. Whenever the advertisement callback asks for a connection to be created and
  the creation fails, whatever the element and wherever in it the UUID stood: the failure is
  logged and \<^verbatim>\<open>start_scan\<close> is called at once; the PHY update is then still requested, on
  the tracked connection as the failed creation left it (null when it stored nothing), and
  is not conditioned on the creation; when the PHY update fails as well, it is logged and
  \<^verbatim>\<open>start_scan\<close> is called a second time. Nothing ahead of the look-up of the peer is more
  than log lines and requests to stop scanning, and the callback returns \<^verbatim>\<open>false\<close>.
\<close>
theorem C10_phy_update_after_failed_create:
  assumes "split_central_eir_found h env st data addr = (st', tr, r)"
    and "Bt_conn_le_create addr \<in> set tr"
    and "bt_conn_le_create_rc env \<noteq> 0"
  shows "\<exists>pre l0 l1. list_all log_or_scan_stop pre \<and>
     tr = pre
          @ [Bt_conn_lookup_addr_le addr, Bt_conn_le_create addr,
             LOG_ERR ''Create conn failed (err %d)'', Bt_le_scan_start, l0,
             Bt_conn_le_phy_update (bt_conn_le_create_conn env)]
          @ (if bt_conn_le_phy_update_rc env \<noteq> 0
             then [LOG_ERR ''Update phy conn failed (err %d)'', Bt_le_scan_start, l1]
             else []) \<and>
     st' = st\<lparr>default_conn := bt_conn_le_create_conn env\<rparr> \<and>
     r = False"
proof -
  obtain pre where pre: "list_all log_or_scan_stop pre"
    and shape: "split_central_eir_found h env st data addr = (st, pre, True) \<or>
      split_central_eir_found h env st data addr =
        (fst (eir_connect h env st addr),
         pre @ [LOG_DBG ''Found the split service'', Bt_le_scan_stop]
           @ snd (eir_connect h env st addr),
         False)"
    using eir_found_shape [of h env st data addr] by blast
  have quiet: "Bt_conn_le_create addr \<notin> set xs" if "list_all log_or_scan_stop xs" for xs
    using that by (induction xs) auto
  from shape assms(1,2) quiet [OF pre]
  have res: "st' = fst (eir_connect h env st addr)"
    "tr = pre @ [LOG_DBG ''Found the split service'', Bt_le_scan_stop]
            @ snd (eir_connect h env st addr)"
    "r = False"
    and created: "Bt_conn_le_create addr \<in> set (snd (eir_connect h env st addr))"
    by auto
  have none: "bt_conn_lookup_addr_le_res env = None"
  proof (rule ccontr)
    assume "bt_conn_lookup_addr_le_res env \<noteq> None"
    then obtain c where "bt_conn_lookup_addr_le_res env = Some c" by blast
    then have "Bt_conn_le_create addr \<notin> set (snd (eir_connect h env st addr))"
      using process_connection_quiet(3) [of addr h env "st\<lparr>default_conn := Some c\<rparr>" c]
      by (simp add: eir_connect_def split_beta Let_def)
    with created show False by simp
  qed
  obtain l0 where l0: "fst (start_scan env 0) = [Bt_le_scan_start, l0]"
    using start_scan_trace [of env 0] by blast
  obtain l1 where l1: "fst (start_scan env 1) = [Bt_le_scan_start, l1]"
    using start_scan_trace [of env 1] by blast
  let ?pre = "pre @ [LOG_DBG ''Found the split service'', Bt_le_scan_stop]"
  have "list_all log_or_scan_stop ?pre" using pre by simp
  moreover have "tr = ?pre
          @ [Bt_conn_lookup_addr_le addr, Bt_conn_le_create addr,
             LOG_ERR ''Create conn failed (err %d)'', Bt_le_scan_start, l0,
             Bt_conn_le_phy_update (bt_conn_le_create_conn env)]
          @ (if bt_conn_le_phy_update_rc env \<noteq> 0
             then [LOG_ERR ''Update phy conn failed (err %d)'', Bt_le_scan_start, l1]
             else [])"
    using res(2) eir_connect_create_failed [OF none assms(3), of h st addr] l0 l1 by simp
  moreover have "st' = st\<lparr>default_conn := bt_conn_le_create_conn env\<rparr>"
    using res(1) eir_connect_create_failed [OF none assms(3), of h st addr] by simp
  ultimately show ?thesis using res(3) by blast
qed

text \<open>
  C10, amended, on an element of two UUIDs: at the first the stack refuses to stop scanning,
  at the second it stops; the creation fails and stores nothing, and the PHY update on the
  null handle fails as well.
\<close>
theorem C10_phy_update_after_failed_create_witness:
  "split_central_eir_found sample_hdr
     (ok_stack\<lparr>bt_le_scan_stop_rc := (\<lambda>k. if k = 0 then - 5 else 0),
               bt_conn_le_create_rc := - 5, bt_conn_le_create_conn := None,
               bt_conn_le_phy_update_rc := - 22\<rparr>)
     (init_central sample_hdr)
     \<lparr>ad_type = 6, ad_data = replicate 16 0x55 @ replicate 16 0x66\<rparr> 42 =
     (init_central sample_hdr,
      [LOG_DBG ''[AD]: %u data_len %u'',
       LOG_DBG ''Found the split service'', Bt_le_scan_stop, LOG_ERR ''Stop LE scan failed (err %d)'',
       LOG_DBG ''Found the split service'', Bt_le_scan_stop,
       Bt_conn_lookup_addr_le 42, Bt_conn_le_create 42,
       LOG_ERR ''Create conn failed (err %d)'', Bt_le_scan_start,
       LOG_DBG ''Scanning successfully started'', Bt_conn_le_phy_update None,
       LOG_ERR ''Update phy conn failed (err %d)'', Bt_le_scan_start,
       LOG_DBG ''Scanning successfully started''],
      False) \<and>
   Bt_conn_le_create 42 \<in> set
      [LOG_DBG ''[AD]: %u data_len %u'',
       LOG_DBG ''Found the split service'', Bt_le_scan_stop, LOG_ERR ''Stop LE scan failed (err %d)'',
       LOG_DBG ''Found the split service'', Bt_le_scan_stop,
       Bt_conn_lookup_addr_le 42, Bt_conn_le_create 42,
       LOG_ERR ''Create conn failed (err %d)'', Bt_le_scan_start,
       LOG_DBG ''Scanning successfully started'', Bt_conn_le_phy_update None,
       LOG_ERR ''Update phy conn failed (err %d)'', Bt_le_scan_start,
       LOG_DBG ''Scanning successfully started''] \<and>
   bt_conn_le_create_rc
     (ok_stack\<lparr>bt_le_scan_stop_rc := (\<lambda>k. if k = 0 then - 5 else 0),
               bt_conn_le_create_rc := - 5, bt_conn_le_create_conn := None,
               bt_conn_le_phy_update_rc := - 22\<rparr>) \<noteq> 0 \<and>
   (\<exists>pre l0 l1. list_all log_or_scan_stop pre \<and>
      [LOG_DBG ''[AD]: %u data_len %u'',
       LOG_DBG ''Found the split service'', Bt_le_scan_stop, LOG_ERR ''Stop LE scan failed (err %d)'',
       LOG_DBG ''Found the split service'', Bt_le_scan_stop,
       Bt_conn_lookup_addr_le 42, Bt_conn_le_create 42,
       LOG_ERR ''Create conn failed (err %d)'', Bt_le_scan_start,
       LOG_DBG ''Scanning successfully started'', Bt_conn_le_phy_update None,
       LOG_ERR ''Update phy conn failed (err %d)'', Bt_le_scan_start,
       LOG_DBG ''Scanning successfully started''] =
      pre
      @ [Bt_conn_lookup_addr_le 42, Bt_conn_le_create 42,
         LOG_ERR ''Create conn failed (err %d)'', Bt_le_scan_start, l0,
         Bt_conn_le_phy_update None]
      @ [LOG_ERR ''Update phy conn failed (err %d)'', Bt_le_scan_start, l1])"
proof -
  let ?env = "ok_stack\<lparr>bt_le_scan_stop_rc := (\<lambda>k. if k = 0 then - 5 else 0),
                       bt_conn_le_create_rc := - 5, bt_conn_le_create_conn := None,
                       bt_conn_le_phy_update_rc := - 22\<rparr>"
  let ?tr = "[LOG_DBG ''[AD]: %u data_len %u'',
       LOG_DBG ''Found the split service'', Bt_le_scan_stop, LOG_ERR ''Stop LE scan failed (err %d)'',
       LOG_DBG ''Found the split service'', Bt_le_scan_stop,
       Bt_conn_lookup_addr_le 42, Bt_conn_le_create 42,
       LOG_ERR ''Create conn failed (err %d)'', Bt_le_scan_start,
       LOG_DBG ''Scanning successfully started'', Bt_conn_le_phy_update None,
       LOG_ERR ''Update phy conn failed (err %d)'', Bt_le_scan_start,
       LOG_DBG ''Scanning successfully started'']"
  have run: "split_central_eir_found sample_hdr ?env (init_central sample_hdr)
      \<lparr>ad_type = 6, ad_data = replicate 16 0x55 @ replicate 16 0x66\<rparr> 42 =
      (init_central sample_hdr, ?tr, False)"
    by code_simp
  have created: "Bt_conn_le_create 42 \<in> set ?tr" by simp
  have failed: "bt_conn_le_create_rc ?env \<noteq> 0" by simp
  have phy: "bt_conn_le_phy_update_rc ?env \<noteq> 0" "bt_conn_le_create_conn ?env = None"
    by simp_all
  from C10_phy_update_after_failed_create [OF run created failed] phy
  have "\<exists>pre l0 l1. list_all log_or_scan_stop pre \<and>
      ?tr = pre
      @ [Bt_conn_lookup_addr_le 42, Bt_conn_le_create 42,
         LOG_ERR ''Create conn failed (err %d)'', Bt_le_scan_start, l0,
         Bt_conn_le_phy_update None]
      @ [LOG_ERR ''Update phy conn failed (err %d)'', Bt_le_scan_start, l1]"
    by simp
  with run created failed show ?thesis by blast
qed

end
